theory Spec2Isabelle
  imports Complex_Main "HOL-Library.Multiset" "HOL-Library.Sublist" "HOL-Library.Word"
begin

section \<open>The DEM-GMRF pipeline (src/dem-gmrf_main.cpp)\<close>

text \<open>
  The program loads a table of points, derives a bounding box, splits the point indices
  into an insertion set and a checkpoint set, feeds the insertion set to a height grid map
  (\<open>CHeightGridMap2D_MRF\<close>), runs the field estimation once, evaluates the checkpoints
  and writes its output files.

  Conventions of the embedding:
  \<^item> a \<open>double\<close> (and the \<open>float\<close> cells of \<open>CMatrix\<close>) is a real number: the arithmetic
    is exact and every value is finite, so NaN and the infinities are outside the model;
  \<^item> a \<open>size_t\<close> is a natural number; the subtraction \<open>N - N_chk_pts\<close>, the sums
    \<open>k+N_insert_pts\<close> and the conversion from \<open>int\<close> are written with their wrap-around at
    \<open>2 ^ 64\<close>; the \<open>int\<close> that \<open>mrpt::utils::round\<close> returns is a signed word of 32 bits;
  \<^item> an exception is a value: every stage returns an \<open>outcome\<close> that carries the calls
    made so far, and \<open>main\<close> turns it into the exit status;
  \<^item> the height grid map, the MRPT helpers and the C++ library are not part of
    src/: the map is a record of operations over an abstract state, the helpers are
    parameters or are modelled as the comments at their definitions say.
\<close>

subsection \<open>The loaded table\<close>

text \<open>
  \<open>CMatrix raw_xyz\<close>: the rows of the table, all of one length; \<open>raw_xyz(i,j)\<close> reads row i,
  column j. The program reads row i only for an index i that it has taken from
  \<open>pts_indices\<close> or that is below N, columns 0 to 2 only after the assertion of line 77,
  and column 3 only when the table does not have exactly 3 columns.
\<close>

type_synonym CMatrix = "real list list"

definition rows :: "CMatrix \<Rightarrow> nat" where
  "rows m = length m"

definition cols :: "CMatrix \<Rightarrow> nat" where
  "cols m = (case m of [] \<Rightarrow> 0 | r # _ \<Rightarrow> length r)"

definition coeff :: "CMatrix \<Rightarrow> nat \<Rightarrow> nat \<Rightarrow> real" where
  "coeff m i j = m ! i ! j"

text \<open>\<open>mrpt::math::TPoint3D pt(raw_xyz(i,0), raw_xyz(i,1), raw_xyz(i,2))\<close>.\<close>

record TPoint3D =
  pt_x :: real
  pt_y :: real
  pt_z :: real

definition point_of_row :: "CMatrix \<Rightarrow> nat \<Rightarrow> TPoint3D" where
  "point_of_row raw_xyz i =
     \<lparr>pt_x = coeff raw_xyz i 0, pt_y = coeff raw_xyz i 1, pt_z = coeff raw_xyz i 2\<rparr>"

subsection \<open>Stage 2: the bounding box (lines 89 to 109)\<close>

text \<open>\<open>std::numeric_limits<double>::max()\<close>, the largest finite double.\<close>

definition DBL_MAX :: real where
  "DBL_MAX = 2 ^ 1024 - 2 ^ 971"

text \<open>
  Modelled from the spec: \<open>mrpt::utils::keep_max\<close> and \<open>keep_min\<close> are MRPT helpers that are
  not under src/; section 4.2 of the spec says that the scan accumulates the maximum and the
  minimum, so \<open>keep_max(var, val)\<close> leaves the larger of the two in \<open>var\<close> and
  \<open>keep_min(var, val)\<close> the smaller.
\<close>

definition keep_max :: "real \<Rightarrow> real \<Rightarrow> real" where
  "keep_max var val = (if var < val then val else var)"

definition keep_min :: "real \<Rightarrow> real \<Rightarrow> real" where
  "keep_min var val = (if val < var then val else var)"

record BBox =
  minx :: real
  miny :: real
  minz :: real
  maxx :: real
  maxy :: real
  maxz :: real

definition bbox_init :: BBox where
  "bbox_init = \<lparr>minx = DBL_MAX, miny = DBL_MAX, minz = DBL_MAX,
                 maxx = - DBL_MAX, maxy = - DBL_MAX, maxz = - DBL_MAX\<rparr>"

text \<open>The body of the scan loop, for one point.\<close>

definition bbox_step :: "TPoint3D \<Rightarrow> BBox \<Rightarrow> BBox" where
  "bbox_step pt b =
     (let b = b\<lparr>maxx := keep_max (maxx b) (pt_x pt), minx := keep_min (minx b) (pt_x pt)\<rparr>;
          b = b\<lparr>maxy := keep_max (maxy b) (pt_y pt), miny := keep_min (miny b) (pt_y pt)\<rparr>
      in if \<bar>pt_z pt\<bar> < 10 ^ 6
         then b\<lparr>maxz := keep_max (maxz b) (pt_z pt), minz := keep_min (minz b) (pt_z pt)\<rparr>
         else b)"

definition bbox_scan :: "CMatrix \<Rightarrow> BBox" where
  "bbox_scan raw_xyz =
     fold (\<lambda>i b. bbox_step (point_of_row raw_xyz i) b) [0..<rows raw_xyz] bbox_init"

definition BORDER :: real where
  "BORDER = 10.0"

definition bbox_expand :: "BBox \<Rightarrow> BBox" where
  "bbox_expand b =
     \<lparr>minx = minx b - BORDER, miny = miny b - BORDER, minz = minz b - BORDER,
      maxx = maxx b + BORDER, maxy = maxy b + BORDER, maxz = maxz b + BORDER\<rparr>"

definition determine_bbox :: "CMatrix \<Rightarrow> BBox" where
  "determine_bbox raw_xyz = bbox_expand (bbox_scan raw_xyz)"



subsection \<open>Configuration (the TCLAP arguments, lines 37 to 49)\<close>

record config =
  arg_dem_resolution :: real
  arg_out_prefix :: string
  arg_checkpoints_ratio :: real
  arg_std_prior :: real
  arg_std_observations :: real
  arg_skip_variance :: bool

text \<open>The values the arguments take when the command line does not give them.\<close>

definition default_config :: config where
  "default_config =
     \<lparr>arg_dem_resolution = 1.0, arg_out_prefix = ''demgmrf_out'',
      arg_checkpoints_ratio = 0.01, arg_std_prior = 1.0, arg_std_observations = 0.20,
      arg_skip_variance = False\<rparr>"

subsection \<open>Exceptions, calls and outcomes\<close>

text \<open>
  \<open>ASSERT_\<close> throws with the text of the failed condition; the two kinds of failure that the
  spec gives the height grid map are \<open>InvalidConfiguration\<close> and \<open>OutOfBounds\<close>.
  \<open>Undefined_index\<close> stands for \<open>pts_indices[k]\<close> read past the end of the vector, which C++
  leaves undefined.
\<close>

datatype exception =
    Assertion string
  | InvalidConfiguration
  | OutOfBounds
  | Undefined_index

datatype interpolation = gimNearest | gimBilinear

text \<open>
  What a run does to the world outside: its calls of the height grid map, with their
  arguments, and its file output, in the order in which they happen.
\<close>

datatype event =
    Call_setSize real real real real real
  | Call_insertIndividualReading real "real \<times> real" bool bool real
  | Call_updateMapEstimation
  | Call_predictMeasurement real real bool interpolation
  | Call_saveMetricMapRepresentationToFile string
  | Call_saveAsMatlab3DGraph string
  | File_saveToTextFile string "real list" string
  | File_CFileOutputStream string
  | File_printf string real real real

datatype 'a outcome =
    Done 'a "event list"
  | Raised exception "event list"

fun trace :: "'a outcome \<Rightarrow> event list" where
  "trace (Done a tr) = tr"
| "trace (Raised e tr) = tr"

fun returned :: "'a outcome \<Rightarrow> bool" where
  "returned (Done a tr) = True"
| "returned (Raised e tr) = False"

text \<open>Sequencing: an exception ends the run where it is thrown.\<close>

fun and_then :: "'a outcome \<Rightarrow> ('a \<Rightarrow> event list \<Rightarrow> 'b outcome) \<Rightarrow> 'b outcome" where
  "and_then (Done a tr) f = f a tr"
| "and_then (Raised e tr) f = Raised e tr"

text \<open>\<open>for (size_t k=0; k<n; k++) body\<close>, over the values \<open>ks\<close> that k takes.\<close>

fun for_loop ::
  "nat list \<Rightarrow> (nat \<Rightarrow> 's \<Rightarrow> event list \<Rightarrow> 's outcome) \<Rightarrow> 's \<Rightarrow> event list \<Rightarrow> 's outcome" where
  "for_loop [] body s tr = Done s tr"
| "for_loop (k # ks) body s tr = and_then (body k s tr) (for_loop ks body)"

subsection \<open>What the program takes from its libraries\<close>

text \<open>
  The height grid map \<open>dem_map\<close>, over a state \<open>'m\<close>. \<open>construct\<close> is the constructor call
  of line 142 followed by the three assignments to \<open>insertionOptions\<close>; it takes
  \<open>GMRF_lambdaPrior\<close>, \<open>GMRF_lambdaObs\<close> and \<open>GMRF_skip_variance\<close>. Every other operation
  may throw. \<open>predictMeasurement\<close> returns the predicted height and its standard deviation.
\<close>

record 'm CHeightGridMap2D_MRF =
  construct :: "real \<Rightarrow> real \<Rightarrow> bool \<Rightarrow> 'm"
  setSize :: "'m \<Rightarrow> real \<Rightarrow> real \<Rightarrow> real \<Rightarrow> real \<Rightarrow> real \<Rightarrow> exception + 'm"
  insertIndividualReading ::
    "'m \<Rightarrow> real \<Rightarrow> real \<times> real \<Rightarrow> bool \<Rightarrow> bool \<Rightarrow> real \<Rightarrow> exception + 'm"
  updateMapEstimation :: "'m \<Rightarrow> exception + 'm"
  predictMeasurement ::
    "'m \<Rightarrow> real \<Rightarrow> real \<Rightarrow> bool \<Rightarrow> interpolation \<Rightarrow> exception + real \<times> real"

text \<open>
  The library routines whose result the source does not determine:
  \<^item> \<open>mrpt_round\<close> is \<open>mrpt::utils::round\<close>; its result is a C++ \<open>int\<close>, a word of 32 bits
    read as a signed number by \<open>sint\<close>;
  \<^item> \<open>random_shuffle\<close> is \<open>std::random_shuffle\<close> under the seed that \<open>std::srand\<close> has just
    taken from the clock;
  \<^item> \<open>nth_element\<close> is \<open>std::nth_element\<close>, given the position and the vector;
  \<^item> \<open>storage\<close> gives the values found in newly allocated coefficients: neither
    \<open>Eigen::VectorXd v(n)\<close> nor \<open>resize\<close> assigns them.
\<close>

record platform =
  mrpt_round :: "real \<Rightarrow> 32 word"
  random_shuffle :: "nat list \<Rightarrow> nat list"
  nth_element :: "nat \<Rightarrow> real list \<Rightarrow> real list"
  storage :: "nat \<Rightarrow> real"

text \<open>The least and the greatest \<open>int\<close>.\<close>

definition INT_MIN :: int where
  "INT_MIN = - (2 ^ 31)"

definition INT_MAX :: int where
  "INT_MAX = 2 ^ 31 - 1"

text \<open>
  What the C++ standard and the MRPT documentation promise of the first three. The
  rounding returns a nearest integer of every value whose magnitude an \<open>int\<close> reaches; of
  its result on any other value nothing is promised.
\<close>

definition nearest_integer :: "int \<Rightarrow> real \<Rightarrow> bool" where
  "nearest_integer i v \<longleftrightarrow> \<bar>real_of_int i - v\<bar> \<le> 1 / 2"

definition rounds_to_nearest :: "(real \<Rightarrow> 32 word) \<Rightarrow> bool" where
  "rounds_to_nearest rnd \<longleftrightarrow>
     (\<forall>v. \<bar>v\<bar> \<le> real_of_int INT_MAX \<longrightarrow> nearest_integer (sint (rnd v)) v)"

definition permutes_input :: "(nat list \<Rightarrow> nat list) \<Rightarrow> bool" where
  "permutes_input shuffle \<longleftrightarrow> (\<forall>xs. mset (shuffle xs) = mset xs)"

definition nth_element_post :: "nat \<Rightarrow> real list \<Rightarrow> real list \<Rightarrow> bool" where
  "nth_element_post n v v' \<longleftrightarrow>
     mset v' = mset v \<and>
     (\<forall>i<n. v' ! i \<le> v' ! n) \<and>
     (\<forall>i. n < i \<and> i < length v' \<longrightarrow> v' ! n \<le> v' ! i)"

definition partitions_at_nth :: "(nat \<Rightarrow> real list \<Rightarrow> real list) \<Rightarrow> bool" where
  "partitions_at_nth ne \<longleftrightarrow> (\<forall>n v. n < length v \<longrightarrow> nth_element_post n v (ne n v))"

text \<open>Arithmetic of \<open>size_t\<close>, and the conversion of an \<open>int\<close> to it.\<close>

definition size_t_of_int :: "int \<Rightarrow> nat" where
  "size_t_of_int i = nat (i mod 2 ^ 64)"

definition size_t_minus :: "nat \<Rightarrow> nat \<Rightarrow> nat" where
  "size_t_minus a b = nat ((int a - int b) mod 2 ^ 64)"

definition size_t_plus :: "nat \<Rightarrow> nat \<Rightarrow> nat" where
  "size_t_plus a b = (a + b) mod 2 ^ 64"

text \<open>\<open>std::vector::operator[]\<close>: defined below the size only.\<close>

definition at_index :: "nat list \<Rightarrow> nat \<Rightarrow> nat option" where
  "at_index v k = (if k < length v then Some (v ! k) else None)"

text \<open>\<open>Eigen::VectorXd v(n)\<close>: n coefficients, none assigned.\<close>

definition VectorXd :: "platform \<Rightarrow> nat \<Rightarrow> real list" where
  "VectorXd pf n = map (storage pf) [0..<n]"

text \<open>
  \<open>v.resize(n)\<close>: a vector that has n coefficients already keeps them, any other is
  allocated anew.
\<close>

definition resize :: "platform \<Rightarrow> nat \<Rightarrow> real list \<Rightarrow> real list" where
  "resize pf n v = (if length v = n then v else VectorXd pf n)"

text \<open>\<open>mrpt::utils::square\<close>.\<close>

definition square :: "real \<Rightarrow> real" where
  "square v = v * v"

subsection \<open>Stage 3: the checkpoints (lines 121 to 131)\<close>

text \<open>
  Modelled from the spec: \<open>mrpt::math::linspace\<close> is not under src/; section 4.3 of the spec
  says that the call \<open>linspace((size_t)0, N-1, N, pts_indices)\<close> builds the identity
  permutation \<open>[0, 1, ..., N-1]\<close>.
\<close>

definition linspace :: "nat \<Rightarrow> nat list" where
  "linspace N = [0..<N]"

record partition =
  pts_indices :: "nat list"
  N_chk_pts :: nat
  N_insert_pts :: nat

definition select_chkpts :: "platform \<Rightarrow> real \<Rightarrow> nat \<Rightarrow> partition" where
  "select_chkpts pf chkpts_ratio N =
     (let pts = random_shuffle pf (linspace N);
          n_chk = size_t_of_int (sint (mrpt_round pf (chkpts_ratio * real N)))
      in \<lparr>pts_indices = pts, N_chk_pts = n_chk, N_insert_pts = size_t_minus N n_chk\<rparr>)"

text \<open>
  The two sets, as the loops of lines 165 to 167 and 205 to 207 (and again 241 to 243 and
  249 to 251) read them: \<open>pts_indices[k]\<close> for \<open>k < N_insert_pts\<close>, and
  \<open>pts_indices[k+N_insert_pts]\<close> for \<open>k < N_chk_pts\<close>.
\<close>

definition insertion_set :: "partition \<Rightarrow> nat list" where
  "insertion_set part = map (\<lambda>k. pts_indices part ! k) [0..<N_insert_pts part]"

definition checkpoint_set :: "partition \<Rightarrow> nat list" where
  "checkpoint_set part =
     map (\<lambda>k. pts_indices part ! size_t_plus k (N_insert_pts part)) [0..<N_chk_pts part]"

subsection \<open>Stage 4: the map is set up (lines 140 to 153)\<close>

definition dem_map_init ::
  "'m CHeightGridMap2D_MRF \<Rightarrow> config \<Rightarrow> BBox \<Rightarrow> event list \<Rightarrow> 'm outcome" where
  "dem_map_init ops cfg bb tr =
     (let RESOLUTION = arg_dem_resolution cfg;
          dem_map = construct ops (1.0 / square (arg_std_prior cfg))
                      (1.0 / square (arg_std_observations cfg)) (arg_skip_variance cfg);
          tr = tr @ [Call_setSize (minx bb) (maxx bb) (miny bb) (maxy bb) RESOLUTION]
      in case setSize ops dem_map (minx bb) (maxx bb) (miny bb) (maxy bb) RESOLUTION of
           Inl e \<Rightarrow> Raised e tr
         | Inr dem_map \<Rightarrow> Done dem_map tr)"

subsection \<open>Stage 5: the insertion set goes into the map (lines 165 to 184)\<close>

text \<open>The standard deviation that the reading of row i is given (lines 170 to 176).\<close>

definition reading_stddev :: "config \<Rightarrow> CMatrix \<Rightarrow> nat \<Rightarrow> real" where
  "reading_stddev cfg raw_xyz i =
     (let all_readings_same_stddev = (cols raw_xyz = 3)
      in if all_readings_same_stddev then arg_std_observations cfg else coeff raw_xyz i 3)"

definition insert_call :: "config \<Rightarrow> CMatrix \<Rightarrow> nat \<Rightarrow> event" where
  "insert_call cfg raw_xyz i =
     (let pt = point_of_row raw_xyz i
      in Call_insertIndividualReading (pt_z pt) (pt_x pt, pt_y pt) False True
           (reading_stddev cfg raw_xyz i))"

definition insert_body ::
  "'m CHeightGridMap2D_MRF \<Rightarrow> config \<Rightarrow> CMatrix \<Rightarrow> partition \<Rightarrow>
     nat \<Rightarrow> 'm \<Rightarrow> event list \<Rightarrow> 'm outcome" where
  "insert_body ops cfg raw_xyz part k dem_map tr =
     (case at_index (pts_indices part) k of
        None \<Rightarrow> Raised Undefined_index tr
      | Some i \<Rightarrow>
          (let pt = point_of_row raw_xyz i;
               tr = tr @ [insert_call cfg raw_xyz i]
           in case insertIndividualReading ops dem_map (pt_z pt) (pt_x pt, pt_y pt)
                     False True (reading_stddev cfg raw_xyz i) of
                Inl e \<Rightarrow> Raised e tr
              | Inr dem_map \<Rightarrow> Done dem_map tr))"

definition insert_points ::
  "'m CHeightGridMap2D_MRF \<Rightarrow> config \<Rightarrow> CMatrix \<Rightarrow> partition \<Rightarrow>
     'm \<Rightarrow> event list \<Rightarrow> 'm outcome" where
  "insert_points ops cfg raw_xyz part dem_map tr =
     for_loop [0..<N_insert_pts part] (insert_body ops cfg raw_xyz part) dem_map tr"

subsection \<open>Stage 6: the estimation (line 192)\<close>

definition update_gmrf :: "'m CHeightGridMap2D_MRF \<Rightarrow> 'm \<Rightarrow> event list \<Rightarrow> 'm outcome" where
  "update_gmrf ops dem_map tr =
     (let tr = tr @ [Call_updateMapEstimation]
      in case updateMapEstimation ops dem_map of
           Inl e \<Rightarrow> Raised e tr
         | Inr dem_map \<Rightarrow> Done dem_map tr)"

subsection \<open>The statistics of a vector of residuals (lines 290 to 309)\<close>

text \<open>\<open>r.maxCoeff()\<close> and \<open>r.minCoeff()\<close> of Eigen, on a vector that has a coefficient.\<close>

definition maxCoeff :: "real list \<Rightarrow> real" where
  "maxCoeff r = fold max (tl r) (hd r)"

definition minCoeff :: "real list \<Rightarrow> real" where
  "minCoeff r = fold min (tl r) (hd r)"

text \<open>
  Modelled from the spec: \<open>mrpt::math::meanAndStd\<close> is not under src/; section 4.5 of the
  spec says that it gives the sample mean and the sample standard deviation of r. The
  deviation divides by \<open>N - 1\<close>; for a single residual, where that quotient does not exist,
  it is taken to be 0.
\<close>

definition sample_mean :: "real list \<Rightarrow> real" where
  "sample_mean r = sum_list r / real (length r)"

definition sample_std :: "real list \<Rightarrow> real" where
  "sample_std r =
     (if length r < 2 then 0
      else sqrt (sum_list (map (\<lambda>v. square (v - sample_mean r)) r) / real (length r - 1)))"

definition meanAndStd :: "real list \<Rightarrow> real \<times> real" where
  "meanAndStd r = (sample_mean r, sample_std r)"

definition stats_file_hdr :: string where
  "stats_file_hdr =
     ''% MAX_ABS_ERR   MIN_ABS_ERR   AVERAGE_ERR   STD_DEV   RMSE    MEDIAN'' @ [CHR 0x0A]"

text \<open>
  \<open>do_residuals_stats(r, stats, file_hdr)\<close>: the model takes r and the vector that \<open>stats\<close>
  refers to at the call, and returns that vector and \<open>file_hdr\<close> as the call leaves them.
\<close>

definition do_residuals_stats :: "platform \<Rightarrow> real list \<Rightarrow> real list \<Rightarrow> real list \<times> string" where
  "do_residuals_stats pf r stats =
     (let file_hdr = stats_file_hdr;
          N = length r;
          stats = resize pf 6 stats
      in if N = 0 then (stats, file_hdr)
         else
           (let stats = stats[0 := maxCoeff r];
                stats = stats[1 := minCoeff r];
                (mean, std) = meanAndStd r;
                stats = stats[2 := mean, 3 := std];
                stats = stats[4 := sqrt (sum_list (map square r) / real N)];
                v = r;
                v = nth_element pf (N div 2) v;
                stats = stats[5 := v ! (N div 2)]
            in (stats, file_hdr)))"

subsection \<open>Stage 7: the checkpoints are evaluated (lines 198 to 235)\<close>

definition predict_call :: "CMatrix \<Rightarrow> nat \<Rightarrow> interpolation \<Rightarrow> event" where
  "predict_call raw_xyz i interp =
     Call_predictMeasurement (coeff raw_xyz i 0) (coeff raw_xyz i 1) False interp"

definition eval_body ::
  "'m CHeightGridMap2D_MRF \<Rightarrow> 'm \<Rightarrow> CMatrix \<Rightarrow> partition \<Rightarrow>
     nat \<Rightarrow> real list \<times> real list \<Rightarrow> event list \<Rightarrow> (real list \<times> real list) outcome" where
  "eval_body ops dem_map raw_xyz part k res tr =
     (case at_index (pts_indices part) (size_t_plus k (N_insert_pts part)) of
        None \<Rightarrow> Raised Undefined_index tr
      | Some i \<Rightarrow>
          (let (residuals_NN, residuals_Bi) = res;
               tr = tr @ [predict_call raw_xyz i gimNearest]
           in case predictMeasurement ops dem_map (coeff raw_xyz i 0) (coeff raw_xyz i 1)
                     False gimNearest of
                Inl e \<Rightarrow> Raised e tr
              | Inr (dem_z_NN, dem_std_NN) \<Rightarrow>
                  (let residuals_NN = residuals_NN[k := coeff raw_xyz i 2 - dem_z_NN];
                       tr = tr @ [predict_call raw_xyz i gimBilinear]
                   in case predictMeasurement ops dem_map (coeff raw_xyz i 0)
                             (coeff raw_xyz i 1) False gimBilinear of
                        Inl e \<Rightarrow> Raised e tr
                      | Inr (dem_z_Bi, dem_std_Bi) \<Rightarrow>
                          Done (residuals_NN, residuals_Bi[k := coeff raw_xyz i 2 - dem_z_Bi])
                            tr)))"

text \<open>The loop of lines 203 to 218: the two vectors of residuals.\<close>

definition eval_residuals ::
  "platform \<Rightarrow> 'm CHeightGridMap2D_MRF \<Rightarrow> 'm \<Rightarrow> CMatrix \<Rightarrow> partition \<Rightarrow>
     event list \<Rightarrow> (real list \<times> real list) outcome" where
  "eval_residuals pf ops dem_map raw_xyz part tr =
     for_loop [0..<N_chk_pts part] (eval_body ops dem_map raw_xyz part)
       (VectorXd pf (N_chk_pts part), VectorXd pf (N_chk_pts part)) tr"

text \<open>Lines 220 to 231: the four files of the stage.\<close>

definition residual_files :: "platform \<Rightarrow> string \<Rightarrow> real list \<times> real list \<Rightarrow> event list" where
  "residual_files pf sPrefix res =
     (let (residuals_NN, residuals_Bi) = res;
          (residuals_NN_stats, stats_hdr) = do_residuals_stats pf residuals_NN [];
          (residuals_Bi_stats, stats_hdr) = do_residuals_stats pf residuals_Bi []
      in [File_saveToTextFile (sPrefix @ ''_chkpt_residuals_NN.txt'') residuals_NN [],
          File_saveToTextFile (sPrefix @ ''_chkpt_residuals_Bi.txt'') residuals_Bi [],
          File_saveToTextFile (sPrefix @ ''_chkpt_residuals_NN_stats.txt'')
            residuals_NN_stats stats_hdr,
          File_saveToTextFile (sPrefix @ ''_chkpt_residuals_Bi_stats.txt'')
            residuals_Bi_stats stats_hdr])"

definition eval_chkpts ::
  "platform \<Rightarrow> 'm CHeightGridMap2D_MRF \<Rightarrow> config \<Rightarrow> CMatrix \<Rightarrow> partition \<Rightarrow>
     'm \<Rightarrow> event list \<Rightarrow> 'm outcome" where
  "eval_chkpts pf ops cfg raw_xyz part dem_map tr =
     (if N_chk_pts part \<noteq> 0
      then and_then (eval_residuals pf ops dem_map raw_xyz part tr)
             (\<lambda>res tr. Done dem_map (tr @ residual_files pf (arg_out_prefix cfg) res))
      else Done dem_map tr)"

subsection \<open>Stage 9: the output files (lines 237 to 257)\<close>

definition printf_body :: "string \<Rightarrow> CMatrix \<Rightarrow> nat list \<Rightarrow> (nat \<Rightarrow> nat) \<Rightarrow> nat \<Rightarrow>
     unit \<Rightarrow> event list \<Rightarrow> unit outcome" where
  "printf_body file raw_xyz pts idx k u tr =
     (case at_index pts (idx k) of
        None \<Rightarrow> Raised Undefined_index tr
      | Some i \<Rightarrow>
          Done () (tr @ [File_printf file (coeff raw_xyz i 0) (coeff raw_xyz i 1)
                           (coeff raw_xyz i 2)]))"

definition save_points ::
  "config \<Rightarrow> CMatrix \<Rightarrow> partition \<Rightarrow> event list \<Rightarrow> unit outcome" where
  "save_points cfg raw_xyz part tr =
     (let sPrefix = arg_out_prefix cfg;
          fil_pts_map = sPrefix @ ''_pts_map.txt'';
          fil_pts_chk = sPrefix @ ''_pts_chk.txt''
      in and_then
           (for_loop [0..<N_insert_pts part]
              (printf_body fil_pts_map raw_xyz (pts_indices part) (\<lambda>k. k)) ()
              (tr @ [File_CFileOutputStream fil_pts_map]))
           (\<lambda>u tr. and_then
              (for_loop [0..<N_chk_pts part]
                 (printf_body fil_pts_chk raw_xyz (pts_indices part)
                    (\<lambda>k. size_t_plus k (N_insert_pts part))) ()
                 (tr @ [File_CFileOutputStream fil_pts_chk]))
              (\<lambda>u tr. Done ()
                 (tr @ [Call_saveMetricMapRepresentationToFile (sPrefix @ ''_grmf''),
                        Call_saveAsMatlab3DGraph (sPrefix @ ''_grmf_draw.m'')]))))"

subsection \<open>The program\<close>

text \<open>
  \<open>dem_gmrf_main\<close> from line 73 on, for the table that \<open>loadFromTextFile\<close> has returned. The
  console output, the time logger and the window of lines 262 to 286 are left out. The
  value of a run that returns is the \<open>return 0\<close> of line 287.
\<close>

definition dem_gmrf_main ::
  "platform \<Rightarrow> 'm CHeightGridMap2D_MRF \<Rightarrow> config \<Rightarrow> CMatrix \<Rightarrow> int outcome" where
  "dem_gmrf_main pf ops cfg raw_xyz =
     (let N = rows raw_xyz; nCols = cols raw_xyz
      in if \<not> nCols \<ge> 3 then Raised (Assertion ''nCols>=3'') []
         else
           (let bb = determine_bbox raw_xyz;
                chkpts_ratio = arg_checkpoints_ratio cfg
            in if \<not> (chkpts_ratio \<ge> 0.0 \<and> chkpts_ratio \<le> 1.0)
               then Raised (Assertion ''chkpts_ratio>=0.0 && chkpts_ratio <=1.0'') []
               else
                 (let part = select_chkpts pf chkpts_ratio N
                  in and_then (dem_map_init ops cfg bb [])
                       (\<lambda>dem_map tr. and_then (insert_points ops cfg raw_xyz part dem_map tr)
                       (\<lambda>dem_map tr. and_then (update_gmrf ops dem_map tr)
                       (\<lambda>dem_map tr. and_then (eval_chkpts pf ops cfg raw_xyz part dem_map tr)
                       (\<lambda>dem_map tr. and_then (save_points cfg raw_xyz part tr)
                       (\<lambda>u tr. Done 0 tr))))))))"

text \<open>\<open>main\<close>: the exit status; an exception is caught, reported and turned into 1.\<close>

definition main :: "platform \<Rightarrow> 'm CHeightGridMap2D_MRF \<Rightarrow> config \<Rightarrow> CMatrix \<Rightarrow> int" where
  "main pf ops cfg raw_xyz =
     (case dem_gmrf_main pf ops cfg raw_xyz of
        Done status tr \<Rightarrow> status
      | Raised e tr \<Rightarrow> 1)"

subsection \<open>Reading a run\<close>

text \<open>The files that the calls of a run create, in order.\<close>

fun file_of :: "event \<Rightarrow> string list" where
  "file_of (File_saveToTextFile f v h) = [f]"
| "file_of (File_CFileOutputStream f) = [f]"
| "file_of (Call_saveMetricMapRepresentationToFile f) = [f]"
| "file_of (Call_saveAsMatlab3DGraph f) = [f]"
| "file_of e = []"

definition files_written :: "event list \<Rightarrow> string list" where
  "files_written tr = concat (map file_of tr)"

fun is_insert :: "event \<Rightarrow> bool" where
  "is_insert (Call_insertIndividualReading h p u t s) = True"
| "is_insert e = False"

fun is_predict :: "event \<Rightarrow> bool" where
  "is_predict (Call_predictMeasurement a b n i) = True"
| "is_predict e = False"

fun is_printf :: "event \<Rightarrow> bool" where
  "is_printf (File_printf f a b c) = True"
| "is_printf e = False"

text \<open>The field \<open>updateNow\<close> of a call of \<open>insertIndividualReading\<close>.\<close>

fun updateNow :: "event \<Rightarrow> bool option" where
  "updateNow (Call_insertIndividualReading h p u t s) = Some u"
| "updateNow e = None"

text \<open>The four files of the checkpoint stage.\<close>

definition residual_file_names :: "string \<Rightarrow> string list" where
  "residual_file_names sPrefix =
     [sPrefix @ ''_chkpt_residuals_NN.txt'', sPrefix @ ''_chkpt_residuals_Bi.txt'',
      sPrefix @ ''_chkpt_residuals_NN_stats.txt'', sPrefix @ ''_chkpt_residuals_Bi_stats.txt'']"

text \<open>
  Modelled from the spec: the height grid map is not under src/; section 4.4 of the spec
  says that its \<open>resize\<close> (here \<open>setSize\<close>) with a non-positive resolution signals
  \<open>InvalidConfiguration\<close>.
\<close>

definition rejects_nonpositive_resolution :: "'m CHeightGridMap2D_MRF \<Rightarrow> bool" where
  "rejects_nonpositive_resolution ops \<longleftrightarrow>
     (\<forall>m a b c d r. r \<le> 0 \<longrightarrow> setSize ops m a b c d r = Inl InvalidConfiguration)"

text \<open>A map none of whose operations throws on a grid of positive resolution.\<close>

definition never_throws :: "'m CHeightGridMap2D_MRF \<Rightarrow> bool" where
  "never_throws ops \<longleftrightarrow>
     (\<forall>m a b c d r. 0 < r \<longrightarrow> (\<exists>m'. setSize ops m a b c d r = Inr m')) \<and>
     (\<forall>m h p u t s. \<exists>m'. insertIndividualReading ops m h p u t s = Inr m') \<and>
     (\<forall>m. \<exists>m'. updateMapEstimation ops m = Inr m') \<and>
     (\<forall>m a b n i. \<exists>v. predictMeasurement ops m a b n i = Inr v)"

subsection \<open>The calls of a run, stage by stage\<close>

text \<open>The partition of a run, and the condition of the assertion of line 122.\<close>

definition partition_of :: "platform \<Rightarrow> config \<Rightarrow> CMatrix \<Rightarrow> partition" where
  "partition_of pf cfg raw_xyz = select_chkpts pf (arg_checkpoints_ratio cfg) (rows raw_xyz)"

definition valid_ratio :: "config \<Rightarrow> bool" where
  "valid_ratio cfg \<longleftrightarrow> 0 \<le> arg_checkpoints_ratio cfg \<and> arg_checkpoints_ratio cfg \<le> 1"

text \<open>
  The calls that each stage makes when nothing throws: the one \<open>setSize\<close>, one insertion
  for each index of the insertion set, the two predictions for each index of the checkpoint
  set followed by the four files of the stage (only when there are checkpoints), and the
  output files. \<open>full_trace\<close> puts them in the order of the program, with the one call of
  \<open>updateMapEstimation\<close> after the insertions.
\<close>

definition setSize_call :: "config \<Rightarrow> CMatrix \<Rightarrow> event" where
  "setSize_call cfg raw_xyz =
     (let bb = determine_bbox raw_xyz
      in Call_setSize (minx bb) (maxx bb) (miny bb) (maxy bb) (arg_dem_resolution cfg))"

definition insert_calls :: "config \<Rightarrow> CMatrix \<Rightarrow> partition \<Rightarrow> event list" where
  "insert_calls cfg raw_xyz part = map (insert_call cfg raw_xyz) (insertion_set part)"

definition predict_calls :: "CMatrix \<Rightarrow> partition \<Rightarrow> event list" where
  "predict_calls raw_xyz part =
     concat (map (\<lambda>i. [predict_call raw_xyz i gimNearest, predict_call raw_xyz i gimBilinear])
               (checkpoint_set part))"

definition checkpoint_calls ::
  "platform \<Rightarrow> config \<Rightarrow> CMatrix \<Rightarrow> partition \<Rightarrow> real list \<times> real list \<Rightarrow> event list" where
  "checkpoint_calls pf cfg raw_xyz part res =
     (if N_chk_pts part \<noteq> 0
      then predict_calls raw_xyz part @ residual_files pf (arg_out_prefix cfg) res
      else [])"

definition point_lines :: "string \<Rightarrow> CMatrix \<Rightarrow> nat list \<Rightarrow> event list" where
  "point_lines file raw_xyz is =
     map (\<lambda>i. File_printf file (coeff raw_xyz i 0) (coeff raw_xyz i 1) (coeff raw_xyz i 2)) is"

definition output_calls :: "config \<Rightarrow> CMatrix \<Rightarrow> partition \<Rightarrow> event list" where
  "output_calls cfg raw_xyz part =
     [File_CFileOutputStream (arg_out_prefix cfg @ ''_pts_map.txt'')] @
     point_lines (arg_out_prefix cfg @ ''_pts_map.txt'') raw_xyz (insertion_set part) @
     [File_CFileOutputStream (arg_out_prefix cfg @ ''_pts_chk.txt'')] @
     point_lines (arg_out_prefix cfg @ ''_pts_chk.txt'') raw_xyz (checkpoint_set part) @
     [Call_saveMetricMapRepresentationToFile (arg_out_prefix cfg @ ''_grmf''),
      Call_saveAsMatlab3DGraph (arg_out_prefix cfg @ ''_grmf_draw.m'')]"

definition full_trace ::
  "platform \<Rightarrow> config \<Rightarrow> CMatrix \<Rightarrow> partition \<Rightarrow> real list \<times> real list \<Rightarrow> event list" where
  "full_trace pf cfg raw_xyz part res =
     (setSize_call cfg raw_xyz # insert_calls cfg raw_xyz part) @
     Call_updateMapEstimation #
     (checkpoint_calls pf cfg raw_xyz part res @ output_calls cfg raw_xyz part)"

text \<open>
  A stage that starts after the calls \<open>tr\<close> runs within \<open>evs\<close>: when it returns it has added
  exactly \<open>evs\<close>, and when it throws it has added the calls of \<open>evs\<close> up to some point.
\<close>

definition runs_within :: "event list \<Rightarrow> event list \<Rightarrow> 'a outcome \<Rightarrow> bool" where
  "runs_within evs tr out \<longleftrightarrow>
     (case out of
        Done a tr' \<Rightarrow> tr' = tr @ evs
      | Raised e tr' \<Rightarrow> \<exists>p. prefix p evs \<and> tr' = tr @ p)"

text \<open>The lines written to one file by \<open>printf\<close>.\<close>

fun printf_to :: "string \<Rightarrow> event \<Rightarrow> bool" where
  "printf_to file (File_printf f a b c) = (f = file)"
| "printf_to file e = False"

text \<open>
  r is the residual of row i under one interpolation: the prediction at the x and y of
  the row succeeds, and r is the z of the row minus the predicted height.
\<close>

definition residual_of ::
  "'m CHeightGridMap2D_MRF \<Rightarrow> 'm \<Rightarrow> CMatrix \<Rightarrow> interpolation \<Rightarrow> nat \<Rightarrow> real \<Rightarrow> bool" where
  "residual_of ops dem_map raw_xyz interp i r \<longleftrightarrow>
     (\<exists>dem_z dem_std.
        predictMeasurement ops dem_map (coeff raw_xyz i 0) (coeff raw_xyz i 1) False interp =
          Inr (dem_z, dem_std) \<and>
        r = coeff raw_xyz i 2 - dem_z)"

subsection \<open>A stand-in map and platform, to run the program on concrete tables\<close>

text \<open>
  The state of the stand-in is the list of the heights inserted, latest first. Its
  \<open>setSize\<close> rejects a non-positive resolution; the nearest prediction is the sum of the
  heights and the bilinear one their number.
\<close>

definition stub_map :: "(real list) CHeightGridMap2D_MRF" where
  "stub_map =
     \<lparr>construct = (\<lambda>lambdaPrior lambdaObs skip. []),
      setSize = (\<lambda>m a b c d r. if r \<le> 0 then Inl InvalidConfiguration else Inr m),
      insertIndividualReading = (\<lambda>m h p u t s. Inr (h # m)),
      updateMapEstimation = (\<lambda>m. Inr m),
      predictMeasurement = (\<lambda>m a b n i.
        Inr (case i of gimNearest \<Rightarrow> (sum_list m, 0) | gimBilinear \<Rightarrow> (real (length m), 0)))\<rparr>"

text \<open>
  The rounding of the stand-in platform: the nearest integer where that is an \<open>int\<close>, and
  the least \<open>int\<close> where it is not, as the conversion instruction of the x86 processors
  gives.
\<close>

definition int32_round :: "real \<Rightarrow> 32 word" where
  "int32_round v =
     (if INT_MIN \<le> round v \<and> round v \<le> INT_MAX then word_of_int (round v)
      else word_of_int INT_MIN)"

definition stub_platform :: platform where
  "stub_platform =
     \<lparr>mrpt_round = int32_round, random_shuffle = rev, nth_element = (\<lambda>n v. sort v),
      storage = (\<lambda>i. 0)\<rparr>"

definition example_table :: CMatrix where
  "example_table = [[0, 0, 1], [4, 0, 2], [0, 6, 3], [4, 6, 5]]"


definition example_table4 :: CMatrix where
  "example_table4 = [[0, 0, 1, 1/2], [4, 0, 2, 1/4], [0, 6, 3, 1/8], [4, 6, 5, 1/16]]"

text \<open>Four configurations: half of the points held out, none, and two that are invalid.\<close>

definition example_half :: config where
  "example_half = default_config\<lparr>arg_checkpoints_ratio := 1 / 2\<rparr>"

definition example_none :: config where
  "example_none = default_config\<lparr>arg_checkpoints_ratio := 0\<rparr>"

definition example_bad_ratio :: config where
  "example_bad_ratio = default_config\<lparr>arg_checkpoints_ratio := 2\<rparr>"

definition example_bad_resolution :: config where
  "example_bad_resolution = default_config\<lparr>arg_dem_resolution := 0\<rparr>"

section \<open>Properties\<close>

subsection \<open>The bounding box\<close>












subsection \<open>The statistics\<close>

lemma maxCoeff_eq: "r \<noteq> [] \<Longrightarrow> maxCoeff r = Max (set r)"
proof (cases r)
  case (Cons a as)
  then show ?thesis unfolding maxCoeff_def by (simp only: Max.set_eq_fold list.sel)
qed simp

lemma minCoeff_eq: "r \<noteq> [] \<Longrightarrow> minCoeff r = Min (set r)"
proof (cases r)
  case (Cons a as)
  then show ?thesis unfolding minCoeff_def by (simp only: Min.set_eq_fold list.sel)
qed simp

lemma sort_around_pivot:
  fixes a :: real
  assumes "\<forall>v\<in>set xs. v \<le> a" "\<forall>v\<in>set ys. a \<le> v"
  shows "sort (xs @ a # ys) = sort xs @ a # sort ys"
proof (rule properties_for_sort)
  show "mset (sort xs @ a # sort ys) = mset (xs @ a # ys)" by simp
  show "sorted (sort xs @ a # sort ys)"
    using assms by (fastforce simp: sorted_append)
qed

lemma nth_element_sorted:
  assumes post: "nth_element_post n v v'" and n: "n < length v"
  shows "v' ! n = sort v ! n"
proof -
  from post have m: "mset v' = mset v"
    and lo: "\<forall>i<n. v' ! i \<le> v' ! n"
    and hi: "\<forall>i. n < i \<and> i < length v' \<longrightarrow> v' ! n \<le> v' ! i"
    by (simp_all add: nth_element_post_def)
  from m have len: "length v' = length v" by (rule mset_eq_length)
  with n have n': "n < length v'" by simp
  let ?xs = "take n v'" and ?ys = "drop (Suc n) v'"
  have split: "v' = ?xs @ v' ! n # ?ys"
    using n' by (rule id_take_nth_drop)
  have xs: "\<forall>w\<in>set ?xs. w \<le> v' ! n"
    using lo n' by (auto simp: in_set_conv_nth)
  have ys: "\<forall>w\<in>set ?ys. v' ! n \<le> w"
  proof
    fix w assume "w \<in> set ?ys"
    then obtain j where j: "j < length ?ys" "w = ?ys ! j" by (auto simp: in_set_conv_nth)
    then have "w = v' ! (Suc n + j)" "Suc n + j < length v'" using n' by simp_all
    with hi show "v' ! n \<le> w" by simp
  qed
  have "sort v = sort v'" using m by (metis properties_for_sort sorted_sort mset_sort)
  also have "\<dots> = sort (?xs @ v' ! n # ?ys)" using split by simp
  also have "\<dots> = sort ?xs @ v' ! n # sort ?ys" using xs ys by (rule sort_around_pivot)
  finally have "sort v ! n = (sort ?xs @ v' ! n # sort ?ys) ! n" by simp
  also have "\<dots> = v' ! n" using n' by (simp add: nth_append)
  finally show ?thesis by simp
qed

lemma resize_6: "length (resize pf 6 stats) = 6"
  by (simp add: resize_def VectorXd_def)

lemma six_updates:
  assumes "length s = 6"
  shows "s[0 := a, Suc 0 := b, 2 := c, 3 := d, 4 := e, 5 := f] = [a, b, c, d, e, f]"
proof -
  from assms obtain s0 s1 s2 s3 s4 s5 where "s = [s0, s1, s2, s3, s4, s5]"
    by (auto simp: length_Suc_conv eval_nat_numeral)
  then show ?thesis by simp
qed

lemma sort_partitions_at_nth: "partitions_at_nth (\<lambda>n v. sort v)"
  unfolding partitions_at_nth_def nth_element_post_def
  by (auto intro: sorted_nth_mono)

text \<open>
  C2: for a vector r of N residuals, N at least 1, \<open>do_residuals_stats\<close> leaves in \<open>stats\<close>,
  in this order, the maximum of r, its minimum, its sample mean, its sample standard
  deviation, the root of the mean of the squares, and the element at position N div 2 of r
  sorted ascending (the upper of the two middle elements when N is even). The position
  comes from \<open>std::nth_element\<close>, of which only its postcondition is used.
\<close>

theorem residual_stats_vector:
  assumes "partitions_at_nth (nth_element pf)" and "r \<noteq> []"
  shows "do_residuals_stats pf r stats =
           ([Max (set r), Min (set r),
             sum_list r / real (length r),
             sample_std r,
             sqrt (sum_list (map (\<lambda>v. v\<^sup>2) r) / real (length r)),
             sort r ! (length r div 2)],
            stats_file_hdr)"
proof -
  let ?n = "length r div 2"
  from assms(2) have n: "?n < length r" by (cases r) simp_all
  with assms(1) have "nth_element_post ?n r (nth_element pf ?n r)"
    by (simp add: partitions_at_nth_def)
  then have med: "nth_element pf ?n r ! ?n = sort r ! ?n"
    using n by (rule nth_element_sorted)
  have sq: "map square r = map (\<lambda>v. v\<^sup>2) r"
    by (simp add: square_def power2_eq_square)
  show ?thesis
    using assms(2)
    by (simp add: do_residuals_stats_def Let_def meanAndStd_def sample_mean_def med sq
        maxCoeff_eq minCoeff_eq six_updates [OF resize_6])
qed

text \<open>The residuals 4, 1, 3, 2: the median is 3, not the average 5/2 of 2 and 3.\<close>

theorem residual_stats_vector_witness:
  "partitions_at_nth (nth_element stub_platform) \<and> [4, 1, 3, 2] \<noteq> ([] :: real list) \<and>
   do_residuals_stats stub_platform [4, 1, 3, 2] [] =
     ([4, 1, 5 / 2, sqrt (5 / 3), sqrt (15 / 2), 3], stats_file_hdr)"
proof -
  have p: "partitions_at_nth (nth_element stub_platform)"
    using sort_partitions_at_nth by (simp add: stub_platform_def)
  have ne: "[4, 1, 3, 2] \<noteq> ([] :: real list)" by simp
  have sd: "sample_std [4, 1, 3, 2] = sqrt (5 / 3)"
    by (simp add: sample_std_def sample_mean_def square_def)
  show ?thesis
    using residual_stats_vector [OF p ne, of "[]"] p
    by (simp add: sd)
qed

subsection \<open>The partition\<close>

lemma rounds_to_nearest_at:
  "rounds_to_nearest rnd \<Longrightarrow> \<bar>v\<bar> \<le> real_of_int INT_MAX \<Longrightarrow>
   nearest_integer (sint (rnd v)) v"
  by (simp add: rounds_to_nearest_def)

lemma nearest_in_range:
  assumes "nearest_integer i (ratio * real N)" "0 \<le> ratio" "ratio \<le> 1"
  shows "0 \<le> i \<and> i \<le> int N"
proof -
  let ?v = "ratio * real N"
  from assms(1) have near: "\<bar>real_of_int i - ?v\<bar> \<le> 1 / 2"
    by (simp add: nearest_integer_def)
  have lo: "0 \<le> ?v" using assms(2) by simp
  have hi: "?v \<le> real N" using assms(2,3) by (simp add: mult_left_le_one_le)
  from near lo have "- 1 < real_of_int i" by linarith
  then have a: "0 \<le> i" by linarith
  from near hi have "real_of_int i < real N + 1" by linarith
  then have b: "i \<le> int N" by linarith
  from a b show ?thesis ..
qed

lemma size_t_of_int_id: "0 \<le> i \<Longrightarrow> i < 2 ^ 64 \<Longrightarrow> size_t_of_int i = nat i"
  by (simp add: size_t_of_int_def)

lemma size_t_plus_id: "a + b < 2 ^ 64 \<Longrightarrow> size_t_plus a b = a + b"
  by (simp add: size_t_plus_def)

lemma size_t_minus_id:
  assumes "b \<le> a" and "a < 2 ^ 64"
  shows "size_t_minus a b = a - b"
proof -
  from assms(2) have "int a < 2 ^ 64" by simp
  with assms(1) have "0 \<le> int a - int b" "int a - int b < 2 ^ 64" by linarith+
  then have "(int a - int b) mod 2 ^ 64 = int a - int b"
    by (rule mod_pos_pos_trivial)
  then have "size_t_minus a b = nat (int a - int b)"
    by (simp only: size_t_minus_def)
  also have "\<dots> = a - b" using assms(1) by linarith
  finally show ?thesis .
qed

lemma map_nth_take: "n \<le> length xs \<Longrightarrow> map (\<lambda>k. xs ! k) [0..<n] = take n xs"
  by (rule nth_equalityI) simp_all

lemma map_nth_drop:
  "length xs = n + m \<Longrightarrow> map (\<lambda>k. xs ! (k + n)) [0..<m] = drop n xs"
  by (rule nth_equalityI) (simp_all add: add.commute)

text \<open>What a well-behaved platform makes of the partition.\<close>

lemma select_chkpts_sound:
  assumes rnd: "nearest_integer (sint (mrpt_round pf (ratio * real N))) (ratio * real N)"
    and perm: "permutes_input (random_shuffle pf)"
    and N: "N < 2 ^ 64" and ratio: "0 \<le> ratio" "ratio \<le> 1"
  defines "part \<equiv> select_chkpts pf ratio N"
  shows "mset (pts_indices part) = mset [0..<N]"
    and "int (N_chk_pts part) = sint (mrpt_round pf (ratio * real N))"
    and "N_chk_pts part \<le> N"
    and "N_insert_pts part = N - N_chk_pts part"
    and "insertion_set part = take (N_insert_pts part) (pts_indices part)"
    and "checkpoint_set part = drop (N_insert_pts part) (pts_indices part)"
proof -
  let ?r = "sint (mrpt_round pf (ratio * real N))"
  from nearest_in_range [OF rnd ratio] have r: "0 \<le> ?r" "?r \<le> int N" by simp_all
  from N have "int N < 2 ^ 64" by simp
  with r have "?r < 2 ^ 64" by linarith
  with r have chk: "N_chk_pts part = nat ?r"
    by (simp add: part_def select_chkpts_def Let_def size_t_of_int_id)
  with r show c1: "int (N_chk_pts part) = ?r" by simp
  from chk r show le: "N_chk_pts part \<le> N" by linarith
  have "N_insert_pts part = size_t_minus N (N_chk_pts part)"
    by (simp add: part_def select_chkpts_def Let_def)
  with le N show ins: "N_insert_pts part = N - N_chk_pts part"
    by (simp add: size_t_minus_id)
  have "pts_indices part = random_shuffle pf [0..<N]"
    by (simp add: part_def select_chkpts_def Let_def linspace_def)
  with perm show ms: "mset (pts_indices part) = mset [0..<N]"
    by (simp add: permutes_input_def)
  then have len: "length (pts_indices part) = N"
    using mset_eq_length by fastforce
  from ins le len show "insertion_set part = take (N_insert_pts part) (pts_indices part)"
    by (simp add: insertion_set_def map_nth_take)
  have plus: "size_t_plus k (N_insert_pts part) = k + N_insert_pts part"
    if "k < N_chk_pts part" for k
    using that ins le N by (simp add: size_t_plus_id)
  have "checkpoint_set part =
          map (\<lambda>k. pts_indices part ! (k + N_insert_pts part)) [0..<N_chk_pts part]"
    unfolding checkpoint_set_def by (rule map_cong) (simp_all add: plus)
  also have "\<dots> = drop (N_insert_pts part) (pts_indices part)"
    using ins le len by (intro map_nth_drop) simp
  finally show "checkpoint_set part = drop (N_insert_pts part) (pts_indices part)" .
qed

lemma sint_word_of_int: "INT_MIN \<le> i \<Longrightarrow> i \<le> INT_MAX \<Longrightarrow> sint (word_of_int i :: 32 word) = i"
  by (simp add: INT_MIN_def INT_MAX_def signed_of_int signed_take_bit_int_eq_self)

lemma int32_round_rounds_to_nearest: "rounds_to_nearest int32_round"
  unfolding rounds_to_nearest_def
proof (intro allI impI)
  fix v :: real
  assume v: "\<bar>v\<bar> \<le> real_of_int INT_MAX"
  then have "real_of_int (- INT_MAX) \<le> v" "v \<le> real_of_int INT_MAX" by simp_all
  then have "round (real_of_int (- INT_MAX)) \<le> round v"
    "round v \<le> round (real_of_int INT_MAX)"
    by (simp_all only: round_mono)
  then have "- INT_MAX \<le> round v" "round v \<le> INT_MAX"
    by (simp_all only: round_of_int)
  then have r: "INT_MIN \<le> round v" "round v \<le> INT_MAX"
    by (simp_all add: INT_MIN_def INT_MAX_def)
  then have "sint (int32_round v) = round v"
    by (simp add: int32_round_def sint_word_of_int)
  then show "nearest_integer (sint (int32_round v)) v"
    using of_int_round_abs_le [of v] by (simp add: nearest_integer_def)
qed

lemma rev_permutes_input: "permutes_input rev"
  by (simp add: permutes_input_def)

lemma stub_platform_rounds: "rounds_to_nearest (mrpt_round stub_platform)"
  using int32_round_rounds_to_nearest by (simp add: stub_platform_def)

lemma stub_platform_permutes: "permutes_input (random_shuffle stub_platform)"
  using rev_permutes_input by (simp add: stub_platform_def)




subsection \<open>The calls of a run\<close>

lemma runs_within_Done [simp]: "runs_within evs tr (Done a tr') \<longleftrightarrow> tr' = tr @ evs"
  by (simp add: runs_within_def)

lemma runs_within_Raised [simp]:
  "runs_within evs tr (Raised e tr') \<longleftrightarrow> (\<exists>p. prefix p evs \<and> tr' = tr @ p)"
  by (simp add: runs_within_def)

lemma runs_within_and_then:
  assumes "runs_within xs tr out"
    and "\<And>a. out = Done a (tr @ xs) \<Longrightarrow> runs_within ys (tr @ xs) (f a (tr @ xs))"
  shows "runs_within (xs @ ys) tr (and_then out f)"
proof (cases out)
  case (Done a tr')
  with assms(1) have tr': "tr' = tr @ xs" by simp
  with Done assms(2) have "runs_within ys (tr @ xs) (f a (tr @ xs))" by simp
  then have "runs_within (xs @ ys) tr (f a (tr @ xs))"
    by (cases "f a (tr @ xs)") (auto simp: prefix_def)
  with Done tr' show ?thesis by simp
next
  case (Raised e tr')
  with assms(1) show ?thesis by (auto simp: prefix_def)
qed

lemma runs_within_and_then_ex:
  assumes "runs_within xs tr out"
    and "\<And>a. out = Done a (tr @ xs) \<Longrightarrow> \<exists>r. runs_within (ys r) (tr @ xs) (f a (tr @ xs))"
  shows "\<exists>r. runs_within (xs @ ys r) tr (and_then out f)"
proof (cases out)
  case (Done a tr')
  with assms(1) have tr': "tr' = tr @ xs" by simp
  with Done assms(2) obtain r where "runs_within (ys r) (tr @ xs) (f a (tr @ xs))" by blast
  with assms(1) have "runs_within (xs @ ys r) tr (and_then out f)"
    by (intro runs_within_and_then) (simp_all add: Done tr')
  then show ?thesis ..
next
  case (Raised e tr')
  with assms(1) show ?thesis by (auto simp: prefix_def)
qed

lemma runs_within_for_loop:
  assumes "\<And>k s tr. k \<in> set ks \<Longrightarrow> runs_within (ev k) tr (body k s tr)"
  shows "runs_within (concat (map ev ks)) tr (for_loop ks body s tr)"
  using assms
proof (induction ks arbitrary: s tr)
  case Nil
  show ?case by simp
next
  case (Cons k ks)
  have "runs_within (ev k @ concat (map ev ks)) tr (and_then (body k s tr) (for_loop ks body))"
  proof (rule runs_within_and_then)
    show "runs_within (ev k) tr (body k s tr)" using Cons.prems by simp
    show "runs_within (concat (map ev ks)) (tr @ ev k) (for_loop ks body a (tr @ ev k))" for a
      using Cons.prems by (intro Cons.IH) simp
  qed
  then show ?case by simp
qed

lemma runs_within_insert_body:
  "runs_within [insert_call cfg raw (pts_indices part ! k)] tr
     (insert_body ops cfg raw part k m tr)"
  by (simp add: insert_body_def at_index_def Let_def split: sum.split)

lemma runs_within_eval_body:
  "runs_within
     [predict_call raw (pts_indices part ! size_t_plus k (N_insert_pts part)) gimNearest,
      predict_call raw (pts_indices part ! size_t_plus k (N_insert_pts part)) gimBilinear]
     tr (eval_body ops m raw part k res tr)"
  by (auto simp: eval_body_def at_index_def Let_def prefix_def split: sum.split prod.split)

lemma runs_within_dem_map_init:
  "runs_within [setSize_call cfg raw] tr (dem_map_init ops cfg (determine_bbox raw) tr)"
  by (simp add: dem_map_init_def setSize_call_def Let_def split: sum.split)

lemma runs_within_insert_points:
  "runs_within (insert_calls cfg raw part) tr (insert_points ops cfg raw part m tr)"
proof -
  have "runs_within
          (concat (map (\<lambda>k. [insert_call cfg raw (pts_indices part ! k)]) [0..<N_insert_pts part]))
          tr (insert_points ops cfg raw part m tr)"
    unfolding insert_points_def by (rule runs_within_for_loop) (rule runs_within_insert_body)
  moreover have "concat (map (\<lambda>k. [insert_call cfg raw (pts_indices part ! k)]) ks) =
                   map (insert_call cfg raw) (map (\<lambda>k. pts_indices part ! k) ks)" for ks
    by (induction ks) simp_all
  ultimately show ?thesis by (simp add: insert_calls_def insertion_set_def comp_def)
qed

lemma runs_within_update_gmrf:
  "runs_within [Call_updateMapEstimation] tr (update_gmrf ops m tr)"
  by (simp add: update_gmrf_def Let_def split: sum.split)

lemma runs_within_eval_residuals:
  "runs_within (predict_calls raw part) tr (eval_residuals pf ops m raw part tr)"
proof -
  let ?ev = "\<lambda>k. [predict_call raw (pts_indices part ! size_t_plus k (N_insert_pts part)) gimNearest,
      predict_call raw (pts_indices part ! size_t_plus k (N_insert_pts part)) gimBilinear]"
  have "runs_within (concat (map ?ev [0..<N_chk_pts part])) tr
          (eval_residuals pf ops m raw part tr)"
    unfolding eval_residuals_def by (rule runs_within_for_loop) (rule runs_within_eval_body)
  then show ?thesis by (simp add: predict_calls_def checkpoint_set_def comp_def)
qed

lemma runs_within_eval_chkpts:
  "\<exists>res. runs_within (checkpoint_calls pf cfg raw part res) tr
            (eval_chkpts pf ops cfg raw part m tr)"
proof (cases "N_chk_pts part = 0")
  case True
  then show ?thesis by (simp add: checkpoint_calls_def eval_chkpts_def)
next
  case False
  have "\<exists>res. runs_within (predict_calls raw part @ residual_files pf (arg_out_prefix cfg) res) tr
          (and_then (eval_residuals pf ops m raw part tr)
             (\<lambda>res tr. Done m (tr @ residual_files pf (arg_out_prefix cfg) res)))"
    by (rule runs_within_and_then_ex [OF runs_within_eval_residuals]) (simp, metis surj_pair)
  with False show ?thesis by (simp add: checkpoint_calls_def eval_chkpts_def)
qed

lemma runs_within_printf_loop:
  "runs_within (point_lines file raw (map (\<lambda>k. pts ! idx k) ks)) tr
     (for_loop ks (printf_body file raw pts idx) () tr)"
proof -
  let ?ev = "\<lambda>k. [File_printf file (coeff raw (pts ! idx k) 0) (coeff raw (pts ! idx k) 1)
                    (coeff raw (pts ! idx k) 2)]"
  have "runs_within (concat (map ?ev ks)) tr (for_loop ks (printf_body file raw pts idx) () tr)"
    by (rule runs_within_for_loop) (simp add: printf_body_def at_index_def)
  moreover have "concat (map ?ev ks) = point_lines file raw (map (\<lambda>k. pts ! idx k) ks)"
    by (induction ks) (simp_all add: point_lines_def)
  ultimately show ?thesis by simp
qed

lemma runs_within_save_points:
  "runs_within (output_calls cfg raw part) tr (save_points cfg raw part tr)"
proof -
  let ?map = "arg_out_prefix cfg @ ''_pts_map.txt''" and ?chk = "arg_out_prefix cfg @ ''_pts_chk.txt''"
  let ?last = "[Call_saveMetricMapRepresentationToFile (arg_out_prefix cfg @ ''_grmf''),
      Call_saveAsMatlab3DGraph (arg_out_prefix cfg @ ''_grmf_draw.m'')]"
  have chk: "runs_within (point_lines ?chk raw (checkpoint_set part) @ ?last) tr'
          (and_then (for_loop [0..<N_chk_pts part]
                 (printf_body ?chk raw (pts_indices part)
                    (\<lambda>k. size_t_plus k (N_insert_pts part))) () tr')
              (\<lambda>u tr. Done () (tr @ ?last)))" for tr'
    unfolding checkpoint_set_def
    by (rule runs_within_and_then [OF runs_within_printf_loop]) simp
  have "runs_within (point_lines ?map raw (insertion_set part) @
                      ([File_CFileOutputStream ?chk] @ point_lines ?chk raw (checkpoint_set part) @ ?last))
          (tr @ [File_CFileOutputStream ?map])
          (and_then (for_loop [0..<N_insert_pts part]
              (printf_body ?map raw (pts_indices part) (\<lambda>k. k)) ()
              (tr @ [File_CFileOutputStream ?map]))
           (\<lambda>u tr. and_then
              (for_loop [0..<N_chk_pts part]
                 (printf_body ?chk raw (pts_indices part)
                    (\<lambda>k. size_t_plus k (N_insert_pts part))) ()
                 (tr @ [File_CFileOutputStream ?chk]))
              (\<lambda>u tr. Done () (tr @ ?last))))"
    unfolding insertion_set_def
  proof (rule runs_within_and_then [OF runs_within_printf_loop])
    fix a
    let ?tr = "(tr @ [File_CFileOutputStream ?map]) @
          point_lines ?map raw (map (\<lambda>k. pts_indices part ! k) [0..<N_insert_pts part])"
    from chk [of "?tr @ [File_CFileOutputStream ?chk]"]
    show "runs_within ([File_CFileOutputStream ?chk] @ point_lines ?chk raw (checkpoint_set part) @ ?last)
            ?tr
            (and_then (for_loop [0..<N_chk_pts part]
                 (printf_body ?chk raw (pts_indices part)
                    (\<lambda>k. size_t_plus k (N_insert_pts part))) ()
                 (?tr @ [File_CFileOutputStream ?chk]))
              (\<lambda>u tr. Done () (tr @ ?last)))"
      by (cases "and_then (for_loop [0..<N_chk_pts part]
                 (printf_body ?chk raw (pts_indices part)
                    (\<lambda>k. size_t_plus k (N_insert_pts part))) ()
                 (?tr @ [File_CFileOutputStream ?chk]))
              (\<lambda>u tr. Done () (tr @ ?last))") (auto simp: prefix_def)
  qed
  then show ?thesis
    by (cases "save_points cfg raw part tr")
       (auto simp: save_points_def output_calls_def Let_def prefix_def)
qed

lemma dem_gmrf_main_few_columns:
  "\<not> 3 \<le> cols raw \<Longrightarrow> dem_gmrf_main pf ops cfg raw = Raised (Assertion ''nCols>=3'') []"
  by (simp add: dem_gmrf_main_def Let_def)

lemma dem_gmrf_main_bad_ratio:
  "3 \<le> cols raw \<Longrightarrow> \<not> valid_ratio cfg \<Longrightarrow>
   dem_gmrf_main pf ops cfg raw =
     Raised (Assertion ''chkpts_ratio>=0.0 && chkpts_ratio <=1.0'') []"
  by (simp add: dem_gmrf_main_def Let_def valid_ratio_def)

lemma dem_gmrf_main_stages:
  assumes "3 \<le> cols raw" "valid_ratio cfg"
  shows "dem_gmrf_main pf ops cfg raw =
           and_then (dem_map_init ops cfg (determine_bbox raw) [])
             (\<lambda>dem_map tr. and_then (insert_points ops cfg raw (partition_of pf cfg raw) dem_map tr)
             (\<lambda>dem_map tr. and_then (update_gmrf ops dem_map tr)
             (\<lambda>dem_map tr. and_then (eval_chkpts pf ops cfg raw (partition_of pf cfg raw) dem_map tr)
             (\<lambda>dem_map tr. and_then (save_points cfg raw (partition_of pf cfg raw) tr)
             (\<lambda>u tr. Done 0 tr)))))"
  using assms by (simp add: dem_gmrf_main_def Let_def valid_ratio_def partition_of_def)

lemma dem_gmrf_main_trace:
  fixes ops :: "'m CHeightGridMap2D_MRF"
  assumes "3 \<le> cols raw" "valid_ratio cfg"
  shows "\<exists>res. runs_within (full_trace pf cfg raw (partition_of pf cfg raw) res) []
                 (dem_gmrf_main pf ops cfg raw)"
proof -
  let ?part = "partition_of pf cfg raw"
  let ?s5 = "\<lambda>(m::'m) tr. and_then (save_points cfg raw ?part tr) (\<lambda>u tr. Done (0::int) tr)"
  let ?s4 = "\<lambda>m tr. and_then (eval_chkpts pf ops cfg raw ?part m tr) ?s5"
  let ?s3 = "\<lambda>m tr. and_then (update_gmrf ops m tr) ?s4"
  let ?s2 = "\<lambda>m tr. and_then (insert_points ops cfg raw ?part m tr) ?s3"
  have s5: "runs_within (output_calls cfg raw ?part) tr (?s5 m tr)" for m :: 'm and tr
  proof -
    have "runs_within (output_calls cfg raw ?part @ []) tr (?s5 m tr)"
      by (rule runs_within_and_then [OF runs_within_save_points]) simp
    then show ?thesis by simp
  qed
  have s4: "\<exists>res. runs_within (checkpoint_calls pf cfg raw ?part res @ output_calls cfg raw ?part)
                     tr (?s4 m tr)" for m :: 'm and tr
  proof -
    from runs_within_eval_chkpts [of pf cfg raw ?part tr ops m] obtain res where
      "runs_within (checkpoint_calls pf cfg raw ?part res) tr (eval_chkpts pf ops cfg raw ?part m tr)"
      by blast
    then have "runs_within (checkpoint_calls pf cfg raw ?part res @ output_calls cfg raw ?part)
                 tr (?s4 m tr)"
      by (rule runs_within_and_then) (rule s5)
    then show ?thesis ..
  qed
  have s3: "\<exists>res. runs_within ([Call_updateMapEstimation] @
                (checkpoint_calls pf cfg raw ?part res @ output_calls cfg raw ?part))
                     tr (?s3 m tr)" for m :: 'm and tr
    by (rule runs_within_and_then_ex [OF runs_within_update_gmrf]) (rule s4)
  have s2: "\<exists>res. runs_within (insert_calls cfg raw ?part @ [Call_updateMapEstimation] @
                (checkpoint_calls pf cfg raw ?part res @ output_calls cfg raw ?part))
                     tr (?s2 m tr)" for m :: 'm and tr
    by (rule runs_within_and_then_ex [OF runs_within_insert_points]) (rule s3)
  have "\<exists>res. runs_within ([setSize_call cfg raw] @ insert_calls cfg raw ?part @
                [Call_updateMapEstimation] @
                (checkpoint_calls pf cfg raw ?part res @ output_calls cfg raw ?part))
                     [] (and_then (dem_map_init ops cfg (determine_bbox raw) []) ?s2)"
    by (rule runs_within_and_then_ex [OF runs_within_dem_map_init]) (rule s2)
  then show ?thesis
    by (simp add: dem_gmrf_main_stages [OF assms] full_trace_def)
qed

lemma runs_within_prefix:
  "runs_within evs [] out \<Longrightarrow> prefix (trace out) evs \<and> (returned out \<longrightarrow> trace out = evs)"
  by (cases out) auto

lemma dem_gmrf_main_calls:
  "\<exists>res. prefix (trace (dem_gmrf_main pf ops cfg raw))
            (full_trace pf cfg raw (partition_of pf cfg raw) res) \<and>
          (returned (dem_gmrf_main pf ops cfg raw) \<longrightarrow>
             trace (dem_gmrf_main pf ops cfg raw) =
               full_trace pf cfg raw (partition_of pf cfg raw) res)"
proof (cases "3 \<le> cols raw \<and> valid_ratio cfg")
  case True
  then obtain res where
    "runs_within (full_trace pf cfg raw (partition_of pf cfg raw) res) []
       (dem_gmrf_main pf ops cfg raw)"
    using dem_gmrf_main_trace by blast
  then show ?thesis using runs_within_prefix by blast
next
  case False
  then have "trace (dem_gmrf_main pf ops cfg raw) = [] \<and>
             \<not> returned (dem_gmrf_main pf ops cfg raw)"
    using dem_gmrf_main_few_columns [of raw pf ops cfg]
      dem_gmrf_main_bad_ratio [of raw cfg pf ops] by (cases "3 \<le> cols raw") auto
  then show ?thesis by simp
qed

text \<open>Runs that return.\<close>

lemma returned_and_then:
  assumes "returned out" and "\<And>a tr. out = Done a tr \<Longrightarrow> returned (f a tr)"
  shows "returned (and_then out f)"
  using assms by (cases out) simp_all

lemma returned_for_loop:
  assumes "\<And>k s tr. k \<in> set ks \<Longrightarrow> returned (body k s tr)"
  shows "returned (for_loop ks body s tr)"
  using assms
proof (induction ks arbitrary: s tr)
  case Nil
  show ?case by simp
next
  case (Cons k ks)
  show ?case
    unfolding for_loop.simps
    by (rule returned_and_then) (simp_all add: Cons)
qed

lemma and_then_eq_Done:
  "and_then out f = Done a tr \<longleftrightarrow> (\<exists>b tr'. out = Done b tr' \<and> f b tr' = Done a tr)"
  by (cases out) simp_all

lemma returned_iff: "returned out \<longleftrightarrow> (\<exists>a tr. out = Done a tr)"
  by (cases out) simp_all

lemma run_returns:
  assumes ops: "never_throws ops"
    and rnd: "nearest_integer
                (sint (mrpt_round pf (arg_checkpoints_ratio cfg * real (rows raw))))
                (arg_checkpoints_ratio cfg * real (rows raw))"
    and perm: "permutes_input (random_shuffle pf)"
    and res: "0 < arg_dem_resolution cfg"
    and cols: "3 \<le> cols raw" and ratio: "valid_ratio cfg"
    and N: "rows raw < 2 ^ 64"
  shows "\<exists>tr. dem_gmrf_main pf ops cfg raw = Done 0 tr"
proof -
  let ?part = "partition_of pf cfg raw"
  from ratio have r: "0 \<le> arg_checkpoints_ratio cfg" "arg_checkpoints_ratio cfg \<le> 1"
    by (simp_all add: valid_ratio_def)
  note s = select_chkpts_sound [OF rnd perm N r, folded partition_of_def]
  from s(1) have len: "length (pts_indices ?part) = rows raw"
    using mset_eq_length by fastforce
  from ops have
    o1: "\<And>m a b c d r. 0 < r \<Longrightarrow> \<exists>m'. setSize ops m a b c d r = Inr m'" and
    o2: "\<And>m h p u t s. \<exists>m'. insertIndividualReading ops m h p u t s = Inr m'" and
    o3: "\<And>m. \<exists>m'. updateMapEstimation ops m = Inr m'" and
    o4: "\<And>m a b n i. \<exists>v. predictMeasurement ops m a b n i = Inr v"
    unfolding never_throws_def by blast+
  have init: "returned (dem_map_init ops cfg bb tr)" for bb tr
    using o1 [OF res] by (simp add: dem_map_init_def Let_def split: sum.split) (metis Inl_Inr_False)
  have ins: "returned (insert_points ops cfg raw ?part m tr)" for m tr
    unfolding insert_points_def
  proof (rule returned_for_loop)
    fix k s tr assume "k \<in> set [0..<N_insert_pts ?part]"
    with s(3,4) len have "k < length (pts_indices ?part)" by simp
    then show "returned (insert_body ops cfg raw ?part k s tr)"
      using o2 by (simp add: insert_body_def at_index_def Let_def split: sum.split)
        (metis Inl_Inr_False)
  qed
  have upd: "returned (update_gmrf ops m tr)" for m tr
    using o3 by (simp add: update_gmrf_def Let_def split: sum.split) (metis Inl_Inr_False)
  have evr: "returned (eval_residuals pf ops m raw ?part tr)" for m tr
    unfolding eval_residuals_def
  proof (rule returned_for_loop)
    fix k s tr assume k: "k \<in> set [0..<N_chk_pts ?part]"
    with s(3,4) N have "size_t_plus k (N_insert_pts ?part) = k + N_insert_pts ?part"
      by (simp add: size_t_plus_id)
    with k s(3,4) len have "size_t_plus k (N_insert_pts ?part) < length (pts_indices ?part)"
      by simp
    then show "returned (eval_body ops m raw ?part k s tr)"
      using o4 by (auto simp: eval_body_def at_index_def Let_def split: sum.split prod.split)
        (metis Inl_Inr_False)+
  qed
  have ev: "returned (eval_chkpts pf ops cfg raw ?part m tr)" for m tr
    unfolding eval_chkpts_def using evr [of m tr]
    by (auto intro!: returned_and_then)
  have p1: "returned (for_loop [0..<N_insert_pts ?part]
              (printf_body f raw (pts_indices ?part) (\<lambda>k. k)) () tr)" for f tr
  proof (rule returned_for_loop)
    fix k s tr assume "k \<in> set [0..<N_insert_pts ?part]"
    with s(3,4) len have "k < length (pts_indices ?part)" by simp
    then show "returned (printf_body f raw (pts_indices ?part) (\<lambda>k. k) k s tr)"
      by (simp add: printf_body_def at_index_def)
  qed
  have p2: "returned (for_loop [0..<N_chk_pts ?part]
              (printf_body f raw (pts_indices ?part)
                 (\<lambda>k. size_t_plus k (N_insert_pts ?part))) () tr)" for f tr
  proof (rule returned_for_loop)
    fix k s tr assume k: "k \<in> set [0..<N_chk_pts ?part]"
    with s(3,4) N have "size_t_plus k (N_insert_pts ?part) = k + N_insert_pts ?part"
      by (simp add: size_t_plus_id)
    with k s(3,4) len have "size_t_plus k (N_insert_pts ?part) < length (pts_indices ?part)"
      by simp
    then show "returned (printf_body f raw (pts_indices ?part)
                 (\<lambda>k. size_t_plus k (N_insert_pts ?part)) k s tr)"
      by (simp add: printf_body_def at_index_def)
  qed
  have sav: "returned (save_points cfg raw ?part tr)" for tr
    unfolding save_points_def Let_def
    by (intro returned_and_then p1 p2) simp
  have "returned (dem_gmrf_main pf ops cfg raw)"
    unfolding dem_gmrf_main_stages [OF cols ratio]
    by (intro returned_and_then init ins upd ev sav) simp
  moreover have "dem_gmrf_main pf ops cfg raw = Done a tr \<Longrightarrow> a = 0" for a tr
    unfolding dem_gmrf_main_stages [OF cols ratio]
    by (auto simp: and_then_eq_Done)
  ultimately show ?thesis by (auto simp: returned_iff)
qed

text \<open>What kind of call each stage makes.\<close>

lemma residual_files_shape:
  "\<exists>v1 v2 v3 v4 h3 h4. residual_files pf sPrefix res =
     [File_saveToTextFile (sPrefix @ ''_chkpt_residuals_NN.txt'') v1 [],
      File_saveToTextFile (sPrefix @ ''_chkpt_residuals_Bi.txt'') v2 [],
      File_saveToTextFile (sPrefix @ ''_chkpt_residuals_NN_stats.txt'') v3 h3,
      File_saveToTextFile (sPrefix @ ''_chkpt_residuals_Bi_stats.txt'') v4 h4]"
  by (simp add: residual_files_def split: prod.split)

lemma insert_calls_props:
  "e \<in> set (insert_calls cfg raw part) \<Longrightarrow>
     is_insert e \<and> updateNow e = Some False \<and> \<not> is_predict e \<and>
     e \<noteq> Call_updateMapEstimation \<and> file_of e = []"
  by (auto simp: insert_calls_def insert_call_def Let_def)

lemma setSize_call_props:
  "\<not> is_insert (setSize_call cfg raw) \<and> \<not> is_predict (setSize_call cfg raw) \<and>
   setSize_call cfg raw \<noteq> Call_updateMapEstimation \<and> file_of (setSize_call cfg raw) = []"
  by (simp add: setSize_call_def Let_def)

lemma predict_calls_props:
  "e \<in> set (predict_calls raw part) \<Longrightarrow>
     is_predict e \<and> \<not> is_insert e \<and> e \<noteq> Call_updateMapEstimation \<and> file_of e = []"
  by (auto simp: predict_calls_def predict_call_def)

lemma residual_files_props:
  "e \<in> set (residual_files pf sPrefix res) \<Longrightarrow>
     \<not> is_predict e \<and> \<not> is_insert e \<and> e \<noteq> Call_updateMapEstimation"
  using residual_files_shape [of pf sPrefix res] by auto

lemma output_calls_props:
  "e \<in> set (output_calls cfg raw part) \<Longrightarrow>
     \<not> is_predict e \<and> \<not> is_insert e \<and> e \<noteq> Call_updateMapEstimation"
  by (auto simp: output_calls_def point_lines_def)

lemma before_update_props:
  "e \<in> set (setSize_call cfg raw # insert_calls cfg raw part) \<Longrightarrow>
     \<not> is_predict e \<and> e \<noteq> Call_updateMapEstimation \<and> file_of e = []"
  using insert_calls_props setSize_call_props by auto

lemma after_update_props:
  assumes "e \<in> set (checkpoint_calls pf cfg raw part res @ output_calls cfg raw part)"
  shows "\<not> is_insert e \<and> e \<noteq> Call_updateMapEstimation"
proof -
  from assms consider "e \<in> set (predict_calls raw part)"
    | "e \<in> set (residual_files pf (arg_out_prefix cfg) res)"
    | "e \<in> set (output_calls cfg raw part)"
    by (auto simp: checkpoint_calls_def split: if_splits)
  then show ?thesis
  proof cases
    case 1
    then show ?thesis using predict_calls_props by blast
  next
    case 2
    then show ?thesis using residual_files_props by blast
  next
    case 3
    then show ?thesis using output_calls_props by blast
  qed
qed

text \<open>A list cut in two by an element that occurs nowhere else, and a prefix of it.\<close>

lemma pivot_position:
  assumes "j < length (as @ u # bs)" "(as @ u # bs) ! j = u" "u \<notin> set as" "u \<notin> set bs"
  shows "j = length as"
proof (rule ccontr)
  assume "j \<noteq> length as"
  then consider "j < length as" | "length as < j" by linarith
  then show False
  proof cases
    case 1
    then have "(as @ u # bs) ! j \<in> set as" by (simp add: nth_append)
    with assms show False by simp
  next
    case 2
    then obtain d where d: "j = length as + Suc d" using less_iff_Suc_add by auto
    with assms(1) have "d < length bs" by simp
    with d have "(as @ u # bs) ! j \<in> set bs" by (simp add: nth_append)
    with assms show False by simp
  qed
qed

lemma left_of_pivot:
  assumes "i < length (as @ u # bs)" "P ((as @ u # bs) ! i)" "\<not> P u" "\<forall>e\<in>set bs. \<not> P e"
  shows "i < length as"
proof (rule ccontr)
  assume "\<not> i < length as"
  then consider "i = length as" | "length as < i" by linarith
  then show False
  proof cases
    case 1
    with assms show False by simp
  next
    case 2
    then obtain d where d: "i = length as + Suc d" using less_iff_Suc_add by auto
    with assms(1) have "d < length bs" by simp
    with d have "(as @ u # bs) ! i \<in> set bs" "(as @ u # bs) ! i = bs ! d"
      by (simp_all add: nth_append)
    with assms show False by auto
  qed
qed

lemma right_of_pivot:
  assumes "i < length (as @ u # bs)" "P ((as @ u # bs) ! i)" "\<not> P u" "\<forall>e\<in>set as. \<not> P e"
  shows "length as < i"
proof (rule ccontr)
  assume "\<not> length as < i"
  then consider "i = length as" | "i < length as" by linarith
  then show False
  proof cases
    case 1
    with assms show False by simp
  next
    case 2
    then have "(as @ u # bs) ! i \<in> set as" by (simp add: nth_append)
    with assms show False by auto
  qed
qed

lemma prefix_nth: "prefix xs ys \<Longrightarrow> i < length xs \<Longrightarrow> xs ! i = ys ! i"
  by (auto simp: prefix_def nth_append)

lemma prefix_count_le: "prefix xs ys \<Longrightarrow> count_list xs a \<le> count_list ys a"
  by (auto simp: prefix_def)

lemma count_list_pivot:
  "u \<notin> set as \<Longrightarrow> u \<notin> set bs \<Longrightarrow> count_list (as @ u # bs) u = 1"
  by (simp add: count_list_0_iff)

text \<open>The files of a run.\<close>

lemma files_written_append [simp]:
  "files_written (xs @ ys) = files_written xs @ files_written ys"
  by (simp add: files_written_def)

lemma files_written_Cons [simp]:
  "files_written (e # es) = file_of e @ files_written es"
  by (simp add: files_written_def)

lemma files_written_Nil [simp]: "files_written [] = []"
  by (simp add: files_written_def)

lemma files_written_no_files: "\<forall>e\<in>set es. file_of e = [] \<Longrightarrow> files_written es = []"
  by (induction es) simp_all

lemma files_written_residual_files:
  "files_written (residual_files pf sPrefix res) = residual_file_names sPrefix"
  using residual_files_shape [of pf sPrefix res] by (auto simp: residual_file_names_def)

lemma files_written_point_lines: "files_written (point_lines f raw is) = []"
  by (rule files_written_no_files) (auto simp: point_lines_def)

lemma files_written_output_calls:
  "files_written (output_calls cfg raw part) =
     [arg_out_prefix cfg @ ''_pts_map.txt'', arg_out_prefix cfg @ ''_pts_chk.txt'',
      arg_out_prefix cfg @ ''_grmf'', arg_out_prefix cfg @ ''_grmf_draw.m'']"
  by (simp add: output_calls_def files_written_point_lines)

lemma files_written_checkpoint_calls:
  "files_written (checkpoint_calls pf cfg raw part res) =
     (if N_chk_pts part \<noteq> 0 then residual_file_names (arg_out_prefix cfg) else [])"
  using predict_calls_props
  by (simp add: checkpoint_calls_def files_written_residual_files files_written_no_files)

lemma files_written_full_trace:
  "files_written (full_trace pf cfg raw part res) =
     (if N_chk_pts part \<noteq> 0 then residual_file_names (arg_out_prefix cfg) else []) @
     [arg_out_prefix cfg @ ''_pts_map.txt'', arg_out_prefix cfg @ ''_pts_chk.txt'',
      arg_out_prefix cfg @ ''_grmf'', arg_out_prefix cfg @ ''_grmf_draw.m'']"
proof -
  have "files_written (setSize_call cfg raw # insert_calls cfg raw part) = []"
    using before_update_props by (intro files_written_no_files) blast
  then show ?thesis
    by (simp add: full_trace_def files_written_checkpoint_calls files_written_output_calls)
qed

lemma files_written_prefix: "prefix xs ys \<Longrightarrow> prefix (files_written xs) (files_written ys)"
  by (auto simp: prefix_def)

lemma residual_names_not_output:
  "f \<in> set (residual_file_names sPrefix) \<Longrightarrow>
   f \<notin> set [sPrefix @ ''_pts_map.txt'', sPrefix @ ''_pts_chk.txt'',
             sPrefix @ ''_grmf'', sPrefix @ ''_grmf_draw.m'']"
  by (auto simp: residual_file_names_def)

lemma printf_to_is_printf: "printf_to f e \<Longrightarrow> is_printf e"
  by (cases e) simp_all

lemma filter_printf_to_none:
  "\<forall>e\<in>set es. \<not> is_printf e \<Longrightarrow> filter (printf_to f) es = []"
  using printf_to_is_printf by (simp add: filter_empty_conv) blast

lemma filter_printf_to_point_lines:
  "filter (printf_to f) (point_lines g raw is) = (if g = f then point_lines g raw is else [])"
  by (induction "is") (simp_all add: point_lines_def)

lemma no_printf_before_output:
  "e \<in> set ((setSize_call cfg raw # insert_calls cfg raw part) @
            Call_updateMapEstimation # checkpoint_calls pf cfg raw part res) \<Longrightarrow> \<not> is_printf e"
  using residual_files_shape [of pf "arg_out_prefix cfg" res]
  by (auto simp: setSize_call_def insert_calls_def insert_call_def Let_def
      checkpoint_calls_def predict_calls_def predict_call_def split: if_splits)

lemma filter_printf_to_output_calls:
  "filter (printf_to (arg_out_prefix cfg @ ''_pts_chk.txt'')) (output_calls cfg raw part) =
     point_lines (arg_out_prefix cfg @ ''_pts_chk.txt'') raw (checkpoint_set part)"
  by (simp add: output_calls_def filter_printf_to_point_lines)

text \<open>The ratio 0, and the loop of the checkpoint stage.\<close>

lemma nearest_of_zero: "rounds_to_nearest rnd \<Longrightarrow> sint (rnd 0) = 0"
proof -
  assume "rounds_to_nearest rnd"
  then have "nearest_integer (sint (rnd 0)) 0"
    by (rule rounds_to_nearest_at) (simp add: INT_MAX_def)
  then have "\<bar>real_of_int (sint (rnd 0)) - 0\<bar> \<le> 1 / 2" by (simp add: nearest_integer_def)
  then show ?thesis by linarith
qed

lemma select_chkpts_zero_ratio:
  assumes "rounds_to_nearest (mrpt_round pf)"
  shows "N_chk_pts (select_chkpts pf 0 N) = 0"
  using nearest_of_zero [OF assms]
  by (simp add: select_chkpts_def Let_def size_t_of_int_def)

lemma checkpoint_calls_none: "N_chk_pts part = 0 \<Longrightarrow> checkpoint_calls pf cfg raw part res = []"
  by (simp add: checkpoint_calls_def)

lemma for_loop_invariant:
  assumes "for_loop ks body s tr = Done s' tr'"
    and "distinct ks" and "D \<inter> set ks = {}"
    and "P D s"
    and step: "\<And>k E s tr s2 tr2. k \<in> set ks \<Longrightarrow> k \<notin> E \<Longrightarrow> P E s \<Longrightarrow>
                 body k s tr = Done s2 tr2 \<Longrightarrow> P (insert k E) s2"
  shows "P (D \<union> set ks) s'"
  using assms
proof (induction ks arbitrary: s tr D)
  case Nil
  then show ?case by simp
next
  case (Cons k ks)
  from Cons.prems(1) obtain s2 tr2 where
    b: "body k s tr = Done s2 tr2" and rest: "for_loop ks body s2 tr2 = Done s' tr'"
    by (auto simp: and_then_eq_Done)
  from Cons.prems(3) have kD: "k \<notin> D" by simp
  have P2: "P (insert k D) s2"
    using Cons.prems(4) b kD by (intro Cons.prems(5) [of k D s tr s2 tr2]) simp_all
  have "P (insert k D \<union> set ks) s'"
  proof (rule Cons.IH [OF rest])
    show "distinct ks" using Cons.prems(2) by simp
    show "insert k D \<inter> set ks = {}" using Cons.prems(2,3) by auto
    show "P (insert k D) s2" by (rule P2)
    show "P (insert k' E) s2'"
      if "k' \<in> set ks" "k' \<notin> E" "P E s1" "body k' s1 t1 = Done s2' t2"
      for k' E s1 t1 s2' t2
      using that by (intro Cons.prems(5) [of k' E s1 t1 s2' t2]) simp_all
  qed
  then show ?case by simp
qed

lemma eval_body_Done:
  assumes "eval_body ops m raw part k (rNN, rBi) tr = Done (rNN', rBi') tr'"
  shows "\<exists>i zn sn zb sb.
           i = pts_indices part ! size_t_plus k (N_insert_pts part) \<and>
           predictMeasurement ops m (coeff raw i 0) (coeff raw i 1) False gimNearest = Inr (zn, sn) \<and>
           predictMeasurement ops m (coeff raw i 0) (coeff raw i 1) False gimBilinear = Inr (zb, sb) \<and>
           rNN' = rNN[k := coeff raw i 2 - zn] \<and> rBi' = rBi[k := coeff raw i 2 - zb]"
  using assms
  by (auto simp: eval_body_def at_index_def Let_def split: if_splits sum.splits prod.splits)

subsection \<open>Two runs on the stand-in map\<close>

lemmas run_defs =
  dem_gmrf_main_def rows_def cols_def coeff_def point_of_row_def determine_bbox_def
  bbox_expand_def bbox_scan_def bbox_step_def bbox_init_def keep_max_def keep_min_def
  BORDER_def DBL_MAX_def select_chkpts_def linspace_def size_t_of_int_def size_t_minus_def
  size_t_plus_def at_index_def VectorXd_def resize_def square_def dem_map_init_def
  reading_stddev_def insert_call_def insert_body_def insert_points_def update_gmrf_def
  maxCoeff_def minCoeff_def sample_mean_def sample_std_def meanAndStd_def stats_file_hdr_def
  do_residuals_stats_def predict_call_def eval_body_def eval_residuals_def residual_files_def
  eval_chkpts_def printf_body_def save_points_def stub_map_def stub_platform_def
  example_table_def example_table4_def default_config_def example_half_def example_none_def
  example_bad_ratio_def example_bad_resolution_def int32_round_def INT_MIN_def INT_MAX_def

lemma example_run_half:
  "dem_gmrf_main stub_platform stub_map example_half example_table =
     Done 0
      [Call_setSize (- 10) 14 (- 10) 16 1,
       Call_insertIndividualReading 5 (4, 6) False True (1 / 5),
       Call_insertIndividualReading 3 (0, 6) False True (1 / 5),
       Call_updateMapEstimation,
       Call_predictMeasurement 4 0 False gimNearest,
       Call_predictMeasurement 4 0 False gimBilinear,
       Call_predictMeasurement 0 0 False gimNearest,
       Call_predictMeasurement 0 0 False gimBilinear,
       File_saveToTextFile ''demgmrf_out_chkpt_residuals_NN.txt'' [- 6, - 7] [],
       File_saveToTextFile ''demgmrf_out_chkpt_residuals_Bi.txt'' [0, - 1] [],
       File_saveToTextFile ''demgmrf_out_chkpt_residuals_NN_stats.txt''
         [- 6, - 7, - (13 / 2), sqrt (1 / 2), sqrt (85 / 2), - 6] stats_file_hdr,
       File_saveToTextFile ''demgmrf_out_chkpt_residuals_Bi_stats.txt''
         [0, - 1, - (1 / 2), sqrt (1 / 2), sqrt (1 / 2), 0] stats_file_hdr,
       File_CFileOutputStream ''demgmrf_out_pts_map.txt'',
       File_printf ''demgmrf_out_pts_map.txt'' 4 6 5,
       File_printf ''demgmrf_out_pts_map.txt'' 0 6 3,
       File_CFileOutputStream ''demgmrf_out_pts_chk.txt'',
       File_printf ''demgmrf_out_pts_chk.txt'' 4 0 2,
       File_printf ''demgmrf_out_pts_chk.txt'' 0 0 1,
       Call_saveMetricMapRepresentationToFile ''demgmrf_out_grmf'',
       Call_saveAsMatlab3DGraph ''demgmrf_out_grmf_draw.m'']"
  by (simp add: run_defs upt_rec Let_def)

lemma example_run_none:
  "dem_gmrf_main stub_platform stub_map example_none example_table4 =
     Done 0
      [Call_setSize (- 10) 14 (- 10) 16 1,
       Call_insertIndividualReading 5 (4, 6) False True (1 / 16),
       Call_insertIndividualReading 3 (0, 6) False True (1 / 8),
       Call_insertIndividualReading 2 (4, 0) False True (1 / 4),
       Call_insertIndividualReading 1 (0, 0) False True (1 / 2),
       Call_updateMapEstimation,
       File_CFileOutputStream ''demgmrf_out_pts_map.txt'',
       File_printf ''demgmrf_out_pts_map.txt'' 4 6 5,
       File_printf ''demgmrf_out_pts_map.txt'' 0 6 3,
       File_printf ''demgmrf_out_pts_map.txt'' 4 0 2,
       File_printf ''demgmrf_out_pts_map.txt'' 0 0 1,
       File_CFileOutputStream ''demgmrf_out_pts_chk.txt'',
       Call_saveMetricMapRepresentationToFile ''demgmrf_out_grmf'',
       Call_saveAsMatlab3DGraph ''demgmrf_out_grmf_draw.m'']"
  by (simp add: run_defs upt_rec Let_def)

lemma example_partition_half:
  "partition_of stub_platform example_half example_table =
     \<lparr>pts_indices = [3, 2, 1, 0], N_chk_pts = 2, N_insert_pts = 2\<rparr>"
  by (simp add: partition_of_def select_chkpts_def stub_platform_def int32_round_def
      INT_MIN_def INT_MAX_def linspace_def size_t_of_int_def size_t_minus_def upt_rec
      example_half_def default_config_def rows_def example_table_def)

lemma example_partition_none:
  "partition_of stub_platform example_none example_table4 =
     \<lparr>pts_indices = [3, 2, 1, 0], N_chk_pts = 0, N_insert_pts = 4\<rparr>"
  by (simp add: partition_of_def select_chkpts_def stub_platform_def int32_round_def
      INT_MIN_def INT_MAX_def linspace_def size_t_of_int_def size_t_minus_def upt_rec
      example_none_def default_config_def rows_def example_table4_def)

lemma stub_map_never_throws: "never_throws stub_map"
  by (simp add: never_throws_def stub_map_def)

lemma stub_map_rejects: "rejects_nonpositive_resolution stub_map"
  by (simp add: rejects_nonpositive_resolution_def stub_map_def)

subsection \<open>The order of the calls\<close>

text \<open>
  C7: in every run, whether it returns or throws, each call of \<open>insertIndividualReading\<close>
  has \<open>updateNow = false\<close>, \<open>updateMapEstimation\<close> is called at most once, every insertion
  comes before that call and every prediction after it. A run that returns has called
  \<open>updateMapEstimation\<close> exactly once, and its insertions are those of the whole insertion
  set, in order. Every run returns whose table has at least 3 columns, whose ratio passes
  the assertion of line 122, whose resolution is positive, whose map does not throw and in
  which \<open>mrpt::utils::round\<close> returns a nearest integer of \<open>chkpts_ratio * N\<close>.
\<close>

theorem solve_once_between_insertions_and_predictions:
  fixes pf :: platform and ops :: "'m CHeightGridMap2D_MRF" and cfg :: config and raw :: CMatrix
  defines "run \<equiv> dem_gmrf_main pf ops cfg raw"
  shows "(\<forall>e\<in>set (trace run). is_insert e \<longrightarrow> updateNow e = Some False) \<and>
         count_list (trace run) Call_updateMapEstimation \<le> 1 \<and>
         (\<forall>i j. i < length (trace run) \<and> j < length (trace run) \<and>
                is_insert (trace run ! i) \<and> trace run ! j = Call_updateMapEstimation
                \<longrightarrow> i < j) \<and>
         (\<forall>i j. i < length (trace run) \<and> j < length (trace run) \<and>
                is_predict (trace run ! i) \<and> trace run ! j = Call_updateMapEstimation
                \<longrightarrow> j < i) \<and>
         (returned run \<longrightarrow>
            count_list (trace run) Call_updateMapEstimation = 1 \<and>
            filter is_insert (trace run) =
              map (insert_call cfg raw) (insertion_set (partition_of pf cfg raw))) \<and>
         (never_throws ops \<and>
          nearest_integer
            (sint (mrpt_round pf (arg_checkpoints_ratio cfg * real (rows raw))))
            (arg_checkpoints_ratio cfg * real (rows raw)) \<and>
          permutes_input (random_shuffle pf) \<and> 0 < arg_dem_resolution cfg \<and>
          3 \<le> cols raw \<and> valid_ratio cfg \<and> rows raw < 2 ^ 64
          \<longrightarrow> returned run)"
proof -
  let ?part = "partition_of pf cfg raw"
  let ?u = "Call_updateMapEstimation"
  let ?as = "setSize_call cfg raw # insert_calls cfg raw ?part"
  from dem_gmrf_main_calls [of pf ops cfg raw] obtain res where
    pre: "prefix (trace run) (full_trace pf cfg raw ?part res)"
    and ret: "returned run \<longrightarrow> trace run = full_trace pf cfg raw ?part res"
    unfolding run_def by blast
  let ?bs = "checkpoint_calls pf cfg raw ?part res @ output_calls cfg raw ?part"
  have full: "full_trace pf cfg raw ?part res = ?as @ ?u # ?bs"
    by (simp add: full_trace_def)
  have ua: "?u \<notin> set ?as" using before_update_props by blast
  have ub: "?u \<notin> set ?bs" using after_update_props by blast
  have pa: "\<forall>e\<in>set ?as. \<not> is_predict e" using before_update_props by blast
  have ib: "\<forall>e\<in>set ?bs. \<not> is_insert e" using after_update_props by blast
  have len: "length (trace run) \<le> length (?as @ ?u # ?bs)"
    using pre unfolding full by (rule prefix_length_le)
  have c1: "\<forall>e\<in>set (trace run). is_insert e \<longrightarrow> updateNow e = Some False"
  proof (intro ballI impI)
    fix e assume e: "e \<in> set (trace run)" "is_insert e"
    from e(1) pre have "e \<in> set (?as @ ?u # ?bs)"
      unfolding full using set_mono_prefix by blast
    with e(2) ib setSize_call_props have "e \<in> set (insert_calls cfg raw ?part)" by auto
    then show "updateNow e = Some False" using insert_calls_props by blast
  qed
  have c2: "count_list (trace run) ?u \<le> 1"
    using prefix_count_le [OF pre, of ?u] count_list_pivot [OF ua ub] unfolding full by simp
  have c3: "i < j" if "i < length (trace run)" "j < length (trace run)"
    "is_insert (trace run ! i)" "trace run ! j = ?u" for i j
  proof -
    from that pre have i: "is_insert ((?as @ ?u # ?bs) ! i)" and j: "(?as @ ?u # ?bs) ! j = ?u"
      unfolding full by (simp_all add: prefix_nth)
    from that(2) len have "j < length (?as @ ?u # ?bs)" by linarith
    then have "j = length ?as" using j ua ub by (rule pivot_position)
    moreover from that(1) len have "i < length (?as @ ?u # ?bs)" by linarith
    then have "i < length ?as" using i _ ib by (rule left_of_pivot) simp
    ultimately show ?thesis by simp
  qed
  have c4: "j < i" if "i < length (trace run)" "j < length (trace run)"
    "is_predict (trace run ! i)" "trace run ! j = ?u" for i j
  proof -
    from that pre have i: "is_predict ((?as @ ?u # ?bs) ! i)" and j: "(?as @ ?u # ?bs) ! j = ?u"
      unfolding full by (simp_all add: prefix_nth)
    from that(2) len have "j < length (?as @ ?u # ?bs)" by linarith
    then have "j = length ?as" using j ua ub by (rule pivot_position)
    moreover from that(1) len have "i < length (?as @ ?u # ?bs)" by linarith
    then have "length ?as < i" using i _ pa by (rule right_of_pivot) simp
    ultimately show ?thesis by simp
  qed
  have c5: "count_list (trace run) ?u = 1 \<and>
            filter is_insert (trace run) = map (insert_call cfg raw) (insertion_set ?part)"
    if "returned run"
  proof -
    from that ret have t: "trace run = ?as @ ?u # ?bs" unfolding full by simp
    have "filter is_insert (insert_calls cfg raw ?part) = insert_calls cfg raw ?part"
      using insert_calls_props by (simp add: filter_id_conv)
    moreover have "filter is_insert ?bs = []"
      using ib by (simp only: filter_empty_conv)
    ultimately have "filter is_insert (trace run) = insert_calls cfg raw ?part"
      unfolding t using setSize_call_props [of cfg raw] by simp
    then show ?thesis
      unfolding t using count_list_pivot [OF ua ub] by (simp add: insert_calls_def)
  qed
  have c6: "returned run"
    if "never_throws ops \<and>
          nearest_integer
            (sint (mrpt_round pf (arg_checkpoints_ratio cfg * real (rows raw))))
            (arg_checkpoints_ratio cfg * real (rows raw)) \<and>
          permutes_input (random_shuffle pf) \<and> 0 < arg_dem_resolution cfg \<and>
          3 \<le> cols raw \<and> valid_ratio cfg \<and> rows raw < 2 ^ 64"
    using that run_returns [of ops pf cfg raw] unfolding run_def by (auto simp: returned_iff)
  from c1 c2 c3 c4 c5 c6 show ?thesis by blast
qed

text \<open>The run on four points with half of them held out.\<close>

theorem solve_once_between_insertions_and_predictions_witness:
  "never_throws stub_map \<and>
   nearest_integer
     (sint (mrpt_round stub_platform
              (arg_checkpoints_ratio example_half * real (rows example_table))))
     (arg_checkpoints_ratio example_half * real (rows example_table)) \<and>
   permutes_input (random_shuffle stub_platform) \<and> 0 < arg_dem_resolution example_half \<and>
   3 \<le> cols example_table \<and> valid_ratio example_half \<and> rows example_table < 2 ^ 64 \<and>
   returned (dem_gmrf_main stub_platform stub_map example_half example_table) \<and>
   trace (dem_gmrf_main stub_platform stub_map example_half example_table) ! 1
     \<in> set (trace (dem_gmrf_main stub_platform stub_map example_half example_table)) \<and>
   is_insert (trace (dem_gmrf_main stub_platform stub_map example_half example_table) ! 1) \<and>
   updateNow (trace (dem_gmrf_main stub_platform stub_map example_half example_table) ! 1)
     = Some False \<and>
   3 < length (trace (dem_gmrf_main stub_platform stub_map example_half example_table)) \<and>
   4 < length (trace (dem_gmrf_main stub_platform stub_map example_half example_table)) \<and>
   trace (dem_gmrf_main stub_platform stub_map example_half example_table) ! 3
     = Call_updateMapEstimation \<and>
   is_predict (trace (dem_gmrf_main stub_platform stub_map example_half example_table) ! 4) \<and>
   count_list (trace (dem_gmrf_main stub_platform stub_map example_half example_table))
     Call_updateMapEstimation = 1 \<and>
   filter is_insert (trace (dem_gmrf_main stub_platform stub_map example_half example_table)) =
     map (insert_call example_half example_table)
       (insertion_set (partition_of stub_platform example_half example_table))"
proof -
  let ?run = "dem_gmrf_main stub_platform stub_map example_half example_table"
  have cfg: "0 < arg_dem_resolution example_half" "valid_ratio example_half"
    by (simp_all add: example_half_def default_config_def valid_ratio_def)
  have tab: "3 \<le> cols example_table" "rows example_table < 2 ^ 64"
    by (simp_all add: cols_def rows_def example_table_def)
  have near: "nearest_integer
     (sint (mrpt_round stub_platform
              (arg_checkpoints_ratio example_half * real (rows example_table))))
     (arg_checkpoints_ratio example_half * real (rows example_table))"
    by (rule rounds_to_nearest_at [OF stub_platform_rounds])
       (simp add: example_half_def default_config_def rows_def example_table_def INT_MAX_def)
  have mem: "trace ?run ! 1 \<in> set (trace ?run)" by (simp add: example_run_half)
  have ins: "is_insert (trace ?run ! 1)" by (simp add: example_run_half)
  have len: "3 < length (trace ?run)" "4 < length (trace ?run)"
    by (simp_all add: example_run_half)
  have upd: "trace ?run ! 3 = Call_updateMapEstimation" by (simp add: example_run_half)
  have prd: "is_predict (trace ?run ! 4)" by (simp add: example_run_half)
  from solve_once_between_insertions_and_predictions
         [where pf = stub_platform and ops = stub_map and cfg = example_half
            and raw = example_table]
    stub_map_never_throws near stub_platform_permutes cfg tab
    mem ins len upd prd
  show ?thesis by blast
qed

subsection \<open>The standard deviation of a reading\<close>

text \<open>
  C8: every call of \<open>insertIndividualReading\<close> that a run makes inserts a row of the
  insertion set, at its x and y, with its z. When the table has exactly 3 columns the
  standard deviation of the call is the value of \<open>--std-obs\<close> (0.20 when the command line
  does not give it); when it has 4 columns or more it is the fourth column of that row.
\<close>

theorem reading_stddev_by_columns:
  fixes pf :: platform and ops :: "'m CHeightGridMap2D_MRF" and cfg :: config and raw :: CMatrix
  assumes "Call_insertIndividualReading h p u t s \<in> set (trace (dem_gmrf_main pf ops cfg raw))"
  shows "(\<exists>i\<in>set (insertion_set (partition_of pf cfg raw)).
            h = coeff raw i 2 \<and> p = (coeff raw i 0, coeff raw i 1) \<and>
            (cols raw = 3 \<longrightarrow> s = arg_std_observations cfg) \<and>
            (4 \<le> cols raw \<longrightarrow> s = coeff raw i 3)) \<and>
         arg_std_observations default_config = 0.20"
proof -
  let ?part = "partition_of pf cfg raw"
  let ?e = "Call_insertIndividualReading h p u t s"
  from dem_gmrf_main_calls [of pf ops cfg raw] obtain res where
    "prefix (trace (dem_gmrf_main pf ops cfg raw)) (full_trace pf cfg raw ?part res)"
    by blast
  with assms have "?e \<in> set (full_trace pf cfg raw ?part res)"
    using set_mono_prefix by blast
  then have "?e = setSize_call cfg raw \<or> ?e \<in> set (insert_calls cfg raw ?part) \<or>
             ?e \<in> set (checkpoint_calls pf cfg raw ?part res @ output_calls cfg raw ?part)"
    by (auto simp: full_trace_def)
  moreover have "is_insert ?e" by simp
  ultimately have "?e \<in> set (insert_calls cfg raw ?part)"
    using setSize_call_props [of cfg raw] after_update_props [of ?e pf cfg raw ?part res]
    by metis
  then obtain i where i: "i \<in> set (insertion_set ?part)" and e: "?e = insert_call cfg raw i"
    by (auto simp: insert_calls_def)
  from e have "h = coeff raw i 2 \<and> p = (coeff raw i 0, coeff raw i 1) \<and>
            (cols raw = 3 \<longrightarrow> s = arg_std_observations cfg) \<and>
            (4 \<le> cols raw \<longrightarrow> s = coeff raw i 3)"
    by (auto simp: insert_call_def reading_stddev_def point_of_row_def Let_def)
  with i show ?thesis by (auto simp: default_config_def)
qed

text \<open>A table of three columns and one of four.\<close>

theorem reading_stddev_by_columns_witness:
  "Call_insertIndividualReading 5 (4, 6) False True (1 / 5)
     \<in> set (trace (dem_gmrf_main stub_platform stub_map example_half example_table)) \<and>
   cols example_table = 3 \<and>
   (1::real) / 5 = arg_std_observations example_half \<and>
   Call_insertIndividualReading 5 (4, 6) False True (1 / 16)
     \<in> set (trace (dem_gmrf_main stub_platform stub_map example_none example_table4)) \<and>
   4 \<le> cols example_table4 \<and>
   (\<exists>i\<in>set (insertion_set (partition_of stub_platform example_none example_table4)).
      5 = coeff example_table4 i 2 \<and> (1::real) / 16 = coeff example_table4 i 3)"
proof -
  have m3: "Call_insertIndividualReading 5 (4, 6) False True (1 / 5)
     \<in> set (trace (dem_gmrf_main stub_platform stub_map example_half example_table))"
    by (simp add: example_run_half)
  have c3: "cols example_table = 3" by (simp add: cols_def example_table_def)
  have m4: "Call_insertIndividualReading 5 (4, 6) False True (1 / 16)
     \<in> set (trace (dem_gmrf_main stub_platform stub_map example_none example_table4))"
    by (simp add: example_run_none)
  have c4: "4 \<le> cols example_table4" by (simp add: cols_def example_table4_def)
  from reading_stddev_by_columns [OF m3] reading_stddev_by_columns [OF m4] m3 c3 m4 c4
  show ?thesis by blast
qed

subsection \<open>Invalid configurations\<close>

text \<open>
  C9: a checkpoint ratio outside [0,1] fails the assertion of line 122: the exit status is
  1 and the run has called nothing, neither the map nor a file. A resolution that is not
  positive is not checked by \<open>dem_gmrf_main\<close> itself; it reaches \<open>setSize\<close>, and with a map
  that rejects it as the spec says, the exit status is 1 and the run has made no insertion,
  no estimation and no prediction, and has written no file.
\<close>

theorem invalid_configuration_aborts:
  fixes pf :: platform and ops :: "'m CHeightGridMap2D_MRF" and cfg :: config and raw :: CMatrix
  defines "run \<equiv> dem_gmrf_main pf ops cfg raw"
  shows "(\<not> (0 \<le> arg_checkpoints_ratio cfg \<and> arg_checkpoints_ratio cfg \<le> 1) \<longrightarrow>
            main pf ops cfg raw = 1 \<and> trace run = []) \<and>
         (arg_dem_resolution cfg \<le> 0 \<and> rejects_nonpositive_resolution ops \<longrightarrow>
            main pf ops cfg raw = 1 \<and>
            (\<forall>e\<in>set (trace run).
               \<not> is_insert e \<and> e \<noteq> Call_updateMapEstimation \<and> \<not> is_predict e \<and>
               file_of e = []))"
proof -
  have a: "main pf ops cfg raw = 1 \<and> trace run = []"
    if "\<not> (0 \<le> arg_checkpoints_ratio cfg \<and> arg_checkpoints_ratio cfg \<le> 1)"
  proof (cases "3 \<le> cols raw")
    case True
    from that have "\<not> valid_ratio cfg" by (simp add: valid_ratio_def)
    from dem_gmrf_main_bad_ratio [OF True this, of pf ops]
    show ?thesis by (simp add: main_def run_def)
  next
    case False
    from dem_gmrf_main_few_columns [OF this, of pf ops cfg]
    show ?thesis by (simp add: main_def run_def)
  qed
  have b: "main pf ops cfg raw = 1 \<and>
            (\<forall>e\<in>set (trace run).
               \<not> is_insert e \<and> e \<noteq> Call_updateMapEstimation \<and> \<not> is_predict e \<and>
               file_of e = [])"
    if r: "arg_dem_resolution cfg \<le> 0" and rej: "rejects_nonpositive_resolution ops"
  proof (cases "3 \<le> cols raw \<and> valid_ratio cfg")
    case True
    from r rej have "dem_map_init ops cfg (determine_bbox raw) [] =
                       Raised InvalidConfiguration [setSize_call cfg raw]"
      by (simp add: dem_map_init_def rejects_nonpositive_resolution_def setSize_call_def Let_def)
    with True have "run = Raised InvalidConfiguration [setSize_call cfg raw]"
      by (simp add: run_def dem_gmrf_main_stages)
    then show ?thesis using setSize_call_props [of cfg raw] by (simp add: main_def run_def)
  next
    case False
    then have "\<exists>e. run = Raised e []"
      using dem_gmrf_main_few_columns [of raw pf ops cfg]
        dem_gmrf_main_bad_ratio [of raw cfg pf ops] unfolding run_def by blast
    then show ?thesis by (auto simp: main_def run_def)
  qed
  from a b show ?thesis by blast
qed

text \<open>The ratio 2, and the resolution 0 on the stand-in map.\<close>

theorem invalid_configuration_aborts_witness:
  "\<not> (0 \<le> arg_checkpoints_ratio example_bad_ratio \<and>
       arg_checkpoints_ratio example_bad_ratio \<le> 1) \<and>
   main stub_platform stub_map example_bad_ratio example_table = 1 \<and>
   trace (dem_gmrf_main stub_platform stub_map example_bad_ratio example_table) = [] \<and>
   arg_dem_resolution example_bad_resolution \<le> 0 \<and>
   rejects_nonpositive_resolution stub_map \<and>
   main stub_platform stub_map example_bad_resolution example_table = 1 \<and>
   trace (dem_gmrf_main stub_platform stub_map example_bad_resolution example_table) =
     [Call_setSize (- 10) 14 (- 10) 16 0]"
proof -
  have h1: "\<not> (0 \<le> arg_checkpoints_ratio example_bad_ratio \<and>
       arg_checkpoints_ratio example_bad_ratio \<le> 1)"
    by (simp add: example_bad_ratio_def)
  have h2: "arg_dem_resolution example_bad_resolution \<le> 0"
    by (simp add: example_bad_resolution_def)
  have t: "trace (dem_gmrf_main stub_platform stub_map example_bad_resolution example_table) =
     [Call_setSize (- 10) 14 (- 10) 16 0]"
    by (simp add: run_defs upt_rec Let_def)
  from invalid_configuration_aborts
         [where cfg = example_bad_ratio and pf = stub_platform and ops = stub_map
            and raw = example_table]
    invalid_configuration_aborts
         [where cfg = example_bad_resolution and pf = stub_platform and ops = stub_map
            and raw = example_table]
    h1 h2 stub_map_rejects t
  show ?thesis by blast
qed

subsection \<open>Runs without checkpoints, and the output files\<close>

text \<open>
  C5: with the checkpoint ratio 0.0 the checkpoint set is empty (\<open>N_chk_pts = 0\<close>), the run
  makes no call of \<open>predictMeasurement\<close> and writes none of the four residual files. This
  is no error: on a table of at least 3 columns, with a positive resolution and a map that
  does not throw, the exit status is 0.
\<close>

theorem zero_ratio_skips_validation:
  fixes pf :: platform and ops :: "'m CHeightGridMap2D_MRF" and cfg :: config and raw :: CMatrix
  assumes rnd: "rounds_to_nearest (mrpt_round pf)" and zero: "arg_checkpoints_ratio cfg = 0"
  defines "run \<equiv> dem_gmrf_main pf ops cfg raw"
  shows "N_chk_pts (partition_of pf cfg raw) = 0 \<and>
         (\<forall>e\<in>set (trace run). \<not> is_predict e) \<and>
         (\<forall>f\<in>set (residual_file_names (arg_out_prefix cfg)). f \<notin> set (files_written (trace run))) \<and>
         (never_throws ops \<and> permutes_input (random_shuffle pf) \<and>
          0 < arg_dem_resolution cfg \<and> 3 \<le> cols raw \<and> rows raw < 2 ^ 64
          \<longrightarrow> main pf ops cfg raw = 0)"
proof -
  let ?part = "partition_of pf cfg raw"
  have n: "N_chk_pts ?part = 0"
    unfolding partition_of_def zero by (rule select_chkpts_zero_ratio [OF rnd])
  from dem_gmrf_main_calls [of pf ops cfg raw] obtain res where
    pre: "prefix (trace run) (full_trace pf cfg raw ?part res)"
    unfolding run_def by blast
  have full: "full_trace pf cfg raw ?part res =
          (setSize_call cfg raw # insert_calls cfg raw ?part) @
          Call_updateMapEstimation # output_calls cfg raw ?part"
    by (simp add: full_trace_def checkpoint_calls_none [OF n])
  have np: "\<not> is_predict e" if "e \<in> set (trace run)" for e
  proof -
    from that pre have "e \<in> set (full_trace pf cfg raw ?part res)"
      using set_mono_prefix by blast
    then consider "e \<in> set (setSize_call cfg raw # insert_calls cfg raw ?part)"
      | "e = Call_updateMapEstimation" | "e \<in> set (output_calls cfg raw ?part)"
      unfolding full by auto
    then show ?thesis
    proof cases
      case 1
      then show ?thesis using before_update_props by blast
    next
      case 2
      then show ?thesis by simp
    next
      case 3
      then show ?thesis using output_calls_props by blast
    qed
  qed
  have nf: "f \<notin> set (files_written (trace run))"
    if f: "f \<in> set (residual_file_names (arg_out_prefix cfg))" for f
  proof -
    from pre have "prefix (files_written (trace run))
                     (files_written (full_trace pf cfg raw ?part res))"
      by (rule files_written_prefix)
    then have "set (files_written (trace run)) \<subseteq>
                 set (files_written (full_trace pf cfg raw ?part res))"
      by (rule set_mono_prefix)
    moreover have "f \<notin> set (files_written (full_trace pf cfg raw ?part res))"
      unfolding files_written_full_trace using n residual_names_not_output [OF f] by simp
    ultimately show ?thesis by blast
  qed
  have ex: "main pf ops cfg raw = 0"
    if h: "never_throws ops \<and> permutes_input (random_shuffle pf) \<and>
          0 < arg_dem_resolution cfg \<and> 3 \<le> cols raw \<and> rows raw < 2 ^ 64"
  proof -
    from zero have "valid_ratio cfg" by (simp add: valid_ratio_def)
    moreover have "nearest_integer
                (sint (mrpt_round pf (arg_checkpoints_ratio cfg * real (rows raw))))
                (arg_checkpoints_ratio cfg * real (rows raw))"
      unfolding zero by (rule rounds_to_nearest_at [OF rnd]) (simp add: INT_MAX_def)
    ultimately obtain tr where "dem_gmrf_main pf ops cfg raw = Done 0 tr"
      using h run_returns [of ops pf cfg raw] by blast
    then show ?thesis by (simp add: main_def)
  qed
  from n np nf ex show ?thesis by blast
qed

text \<open>The run on the table of four columns with no point held out.\<close>

theorem zero_ratio_skips_validation_witness:
  "rounds_to_nearest (mrpt_round stub_platform) \<and>
   arg_checkpoints_ratio example_none = 0 \<and>
   never_throws stub_map \<and> permutes_input (random_shuffle stub_platform) \<and>
   0 < arg_dem_resolution example_none \<and> 3 \<le> cols example_table4 \<and>
   rows example_table4 < 2 ^ 64 \<and>
   Call_updateMapEstimation
     \<in> set (trace (dem_gmrf_main stub_platform stub_map example_none example_table4)) \<and>
   arg_out_prefix example_none @ ''_chkpt_residuals_NN.txt''
     \<in> set (residual_file_names (arg_out_prefix example_none)) \<and>
   arg_out_prefix example_none @ ''_chkpt_residuals_NN.txt''
     \<notin> set (files_written
              (trace (dem_gmrf_main stub_platform stub_map example_none example_table4))) \<and>
   \<not> is_predict Call_updateMapEstimation \<and>
   N_chk_pts (partition_of stub_platform example_none example_table4) = 0 \<and>
   main stub_platform stub_map example_none example_table4 = 0"
proof -
  have h2: "arg_checkpoints_ratio example_none = 0"
    by (simp add: example_none_def)
  have h3: "0 < arg_dem_resolution example_none"
    by (simp add: example_none_def default_config_def)
  have h4: "3 \<le> cols example_table4" by (simp add: cols_def example_table4_def)
  have h5: "rows example_table4 < 2 ^ 64" by (simp add: rows_def example_table4_def)
  have m: "Call_updateMapEstimation
     \<in> set (trace (dem_gmrf_main stub_platform stub_map example_none example_table4))"
    by (simp add: example_run_none)
  have f: "arg_out_prefix example_none @ ''_chkpt_residuals_NN.txt''
     \<in> set (residual_file_names (arg_out_prefix example_none))"
    by (simp add: residual_file_names_def)
  have p: "\<not> is_predict Call_updateMapEstimation" by simp
  from zero_ratio_skips_validation
         [OF stub_platform_rounds h2, where ops = stub_map and raw = example_table4]
    stub_platform_rounds h2 stub_map_never_throws stub_platform_permutes h3 h4 h5 m f p
  show ?thesis by blast
qed

text \<open>
  C10: a run that returns has created, after the four residual files when there are
  checkpoints and after no other file when there are none, the files \<open>_pts_map.txt\<close>,
  \<open>_pts_chk.txt\<close>, \<open>_grmf\<close> and \<open>_grmf_draw.m\<close>, and the lines of \<open>_pts_chk.txt\<close> are the points
  of the checkpoint set. So with an empty checkpoint set \<open>_pts_chk.txt\<close> is still created,
  with no line, next to the other three: only the four residual files depend on the test
  of line 198.
\<close>

theorem output_stage_without_checkpoints:
  fixes pf :: platform and ops :: "'m CHeightGridMap2D_MRF" and cfg :: config and raw :: CMatrix
  defines "run \<equiv> dem_gmrf_main pf ops cfg raw"
    and "part \<equiv> partition_of pf cfg raw"
    and "sPrefix \<equiv> arg_out_prefix cfg"
  assumes ret: "returned run"
  shows "files_written (trace run) =
           (if N_chk_pts part \<noteq> 0 then residual_file_names sPrefix else []) @
           [sPrefix @ ''_pts_map.txt'', sPrefix @ ''_pts_chk.txt'',
            sPrefix @ ''_grmf'', sPrefix @ ''_grmf_draw.m''] \<and>
         filter (printf_to (sPrefix @ ''_pts_chk.txt'')) (trace run) =
           point_lines (sPrefix @ ''_pts_chk.txt'') raw (checkpoint_set part) \<and>
         (N_chk_pts part = 0 \<longrightarrow>
            files_written (trace run) =
              [sPrefix @ ''_pts_map.txt'', sPrefix @ ''_pts_chk.txt'',
               sPrefix @ ''_grmf'', sPrefix @ ''_grmf_draw.m''] \<and>
            filter (printf_to (sPrefix @ ''_pts_chk.txt'')) (trace run) = [])"
proof -
  from dem_gmrf_main_calls [of pf ops cfg raw] ret obtain res where
    t: "trace run = full_trace pf cfg raw part res"
    unfolding run_def part_def by blast
  have f: "files_written (trace run) =
           (if N_chk_pts part \<noteq> 0 then residual_file_names sPrefix else []) @
           [sPrefix @ ''_pts_map.txt'', sPrefix @ ''_pts_chk.txt'',
            sPrefix @ ''_grmf'', sPrefix @ ''_grmf_draw.m'']"
    unfolding t files_written_full_trace sPrefix_def ..
  let ?before = "(setSize_call cfg raw # insert_calls cfg raw part) @
            Call_updateMapEstimation # checkpoint_calls pf cfg raw part res"
  have split: "full_trace pf cfg raw part res = ?before @ output_calls cfg raw part"
    by (simp add: full_trace_def)
  have "filter (printf_to (sPrefix @ ''_pts_chk.txt'')) ?before = []"
    using no_printf_before_output by (intro filter_printf_to_none) blast
  then have l: "filter (printf_to (sPrefix @ ''_pts_chk.txt'')) (trace run) =
           point_lines (sPrefix @ ''_pts_chk.txt'') raw (checkpoint_set part)"
    unfolding t split filter_append sPrefix_def
    by (simp only: filter_printf_to_output_calls append_Nil)
  have z: "point_lines (sPrefix @ ''_pts_chk.txt'') raw (checkpoint_set part) = []"
    if "N_chk_pts part = 0"
    using that by (simp add: point_lines_def checkpoint_set_def)
  from f l z show ?thesis by simp
qed

text \<open>The run with no point held out: four files, no line in \<open>_pts_chk.txt\<close>.\<close>

theorem output_stage_without_checkpoints_witness:
  "returned (dem_gmrf_main stub_platform stub_map example_none example_table4) \<and>
   N_chk_pts (partition_of stub_platform example_none example_table4) = 0 \<and>
   files_written (trace (dem_gmrf_main stub_platform stub_map example_none example_table4)) =
     [arg_out_prefix example_none @ ''_pts_map.txt'',
      arg_out_prefix example_none @ ''_pts_chk.txt'',
      arg_out_prefix example_none @ ''_grmf'',
      arg_out_prefix example_none @ ''_grmf_draw.m''] \<and>
   filter (printf_to (arg_out_prefix example_none @ ''_pts_chk.txt''))
     (trace (dem_gmrf_main stub_platform stub_map example_none example_table4)) = []"
proof -
  have ret: "returned (dem_gmrf_main stub_platform stub_map example_none example_table4)"
    by (simp add: example_run_none)
  have n: "N_chk_pts (partition_of stub_platform example_none example_table4) = 0"
    by (simp add: example_partition_none)
  from output_stage_without_checkpoints [OF ret] ret n
  show ?thesis by blast
qed

subsection \<open>The residuals\<close>

lemma filter_predict_full_trace:
  "filter is_predict (full_trace pf cfg raw part res) = predict_calls raw part"
proof -
  have a: "filter is_predict (setSize_call cfg raw # insert_calls cfg raw part) = []"
    using before_update_props by (simp only: filter_empty_conv) blast
  have p: "filter is_predict (predict_calls raw part) = predict_calls raw part"
    using predict_calls_props by (simp add: filter_id_conv)
  have r: "filter is_predict (residual_files pf (arg_out_prefix cfg) res) = []"
    using residual_files_props by (simp only: filter_empty_conv) blast
  have o: "filter is_predict (output_calls cfg raw part) = []"
    using output_calls_props by (simp only: filter_empty_conv) blast
  have e: "predict_calls raw part = []" if "N_chk_pts part = 0"
    using that by (simp add: predict_calls_def checkpoint_set_def)
  have c: "filter is_predict (checkpoint_calls pf cfg raw part res) = predict_calls raw part"
    using p r e by (simp add: checkpoint_calls_def)
  have "filter is_predict (full_trace pf cfg raw part res) =
          filter is_predict (setSize_call cfg raw # insert_calls cfg raw part) @
          filter is_predict (checkpoint_calls pf cfg raw part res) @
          filter is_predict (output_calls cfg raw part)"
    by (simp add: full_trace_def)
  then show ?thesis by (simp only: a c o append_Nil append_Nil2)
qed

lemma returned_run_predictions:
  assumes "returned (dem_gmrf_main pf ops cfg raw)"
  shows "filter is_predict (trace (dem_gmrf_main pf ops cfg raw)) =
           predict_calls raw (partition_of pf cfg raw)"
proof -
  from dem_gmrf_main_calls [of pf ops cfg raw] assms obtain res where
    "trace (dem_gmrf_main pf ops cfg raw) = full_trace pf cfg raw (partition_of pf cfg raw) res"
    by blast
  then show ?thesis by (simp add: filter_predict_full_trace)
qed

text \<open>
  C6: when the loop of lines 205 to 218 completes, it has called \<open>predictMeasurement\<close>
  exactly twice for each index of the checkpoint set, in order, at the x and y of that
  row: first with \<open>gimNearest\<close>, then with \<open>gimBilinear\<close>. The two vectors of residuals have
  one entry for each checkpoint, and entry k of each is the z of the k-th checkpoint row
  minus the height that the prediction of its interpolation returned. A run that returns
  has made these predictions and no other.
\<close>

theorem two_residuals_per_checkpoint:
  fixes ops :: "'m CHeightGridMap2D_MRF"
  assumes "eval_residuals pf ops dem_map raw part tr = Done (residuals_NN, residuals_Bi) tr'"
  shows "tr' = tr @ concat (map (\<lambda>i. [predict_call raw i gimNearest, predict_call raw i gimBilinear])
                          (checkpoint_set part)) \<and>
         length residuals_NN = N_chk_pts part \<and> length residuals_Bi = N_chk_pts part \<and>
         (\<forall>k<N_chk_pts part.
            residual_of ops dem_map raw gimNearest (checkpoint_set part ! k) (residuals_NN ! k) \<and>
            residual_of ops dem_map raw gimBilinear (checkpoint_set part ! k) (residuals_Bi ! k)) \<and>
         (returned (dem_gmrf_main pf ops cfg raw) \<longrightarrow>
            filter is_predict (trace (dem_gmrf_main pf ops cfg raw)) =
              concat (map (\<lambda>i. [predict_call raw i gimNearest, predict_call raw i gimBilinear])
                        (checkpoint_set (partition_of pf cfg raw))))"
proof -
  let ?n = "N_chk_pts part"
  let ?i = "\<lambda>k. pts_indices part ! size_t_plus k (N_insert_pts part)"
  let ?P = "\<lambda>E (rs :: real list \<times> real list).
              length (fst rs) = ?n \<and> length (snd rs) = ?n \<and>
              (\<forall>k\<in>E. k < ?n \<longrightarrow>
                 residual_of ops dem_map raw gimNearest (?i k) (fst rs ! k) \<and>
                 residual_of ops dem_map raw gimBilinear (?i k) (snd rs ! k))"
  from runs_within_eval_residuals [of raw part tr pf ops dem_map] assms
  have t: "tr' = tr @ predict_calls raw part" by simp
  have "?P ({} \<union> set [0..<?n]) (residuals_NN, residuals_Bi)"
  proof (rule for_loop_invariant [where P = ?P, OF assms [unfolded eval_residuals_def]])
    show "distinct [0..<?n]" by simp
    show "{} \<inter> set [0..<?n] = {}" by simp
    show "?P {} (VectorXd pf ?n, VectorXd pf ?n)" by (simp add: VectorXd_def)
  next
    fix k E s tr s2 tr2
    assume k: "k \<in> set [0..<?n]" and kE: "k \<notin> E" and P: "?P E s"
      and b: "eval_body ops dem_map raw part k s tr = Done s2 tr2"
    obtain rNN rBi rNN' rBi' where s: "s = (rNN, rBi)" "s2 = (rNN', rBi')"
      by (metis surj_pair)
    from eval_body_Done [OF b [unfolded s]] obtain zn sn zb sb where
      pn: "predictMeasurement ops dem_map (coeff raw (?i k) 0) (coeff raw (?i k) 1) False gimNearest
             = Inr (zn, sn)"
      and pb: "predictMeasurement ops dem_map (coeff raw (?i k) 0) (coeff raw (?i k) 1) False gimBilinear
             = Inr (zb, sb)"
      and r: "rNN' = rNN[k := coeff raw (?i k) 2 - zn]" "rBi' = rBi[k := coeff raw (?i k) 2 - zb]"
      by blast
    from P s have len: "length rNN = ?n" "length rBi = ?n" by simp_all
    have here: "residual_of ops dem_map raw gimNearest (?i k) (rNN' ! k) \<and>
                residual_of ops dem_map raw gimBilinear (?i k) (rBi' ! k)"
      using k len pn pb r by (simp add: residual_of_def)
    have there: "residual_of ops dem_map raw gimNearest (?i j) (rNN' ! j) \<and>
                 residual_of ops dem_map raw gimBilinear (?i j) (rBi' ! j)"
      if "j \<in> E" "j < ?n" for j
    proof -
      from that kE have "j \<noteq> k" by blast
      then have "rNN' ! j = rNN ! j" "rBi' ! j = rBi ! j" using r by simp_all
      with P s that show ?thesis by simp
    qed
    from here there len r show "?P (insert k E) s2" unfolding s by auto
  qed
  then have len: "length residuals_NN = ?n" "length residuals_Bi = ?n"
    and all: "\<forall>k<?n. residual_of ops dem_map raw gimNearest (?i k) (residuals_NN ! k) \<and>
                residual_of ops dem_map raw gimBilinear (?i k) (residuals_Bi ! k)"
    by simp_all
  have "checkpoint_set part ! k = ?i k" if "k < ?n" for k
    using that by (simp add: checkpoint_set_def)
  with all have "\<forall>k<?n.
            residual_of ops dem_map raw gimNearest (checkpoint_set part ! k) (residuals_NN ! k) \<and>
            residual_of ops dem_map raw gimBilinear (checkpoint_set part ! k) (residuals_Bi ! k)"
    by simp
  moreover have "filter is_predict (trace (dem_gmrf_main pf ops cfg raw)) =
              concat (map (\<lambda>i. [predict_call raw i gimNearest, predict_call raw i gimBilinear])
                        (checkpoint_set (partition_of pf cfg raw)))"
    if "returned (dem_gmrf_main pf ops cfg raw)"
    using returned_run_predictions [OF that] by (simp add: predict_calls_def)
  ultimately show ?thesis using t len by (simp add: predict_calls_def)
qed

text \<open>The two checkpoints of the run on four points, after the heights 5 and 3 went in.\<close>

theorem two_residuals_per_checkpoint_witness:
  "eval_residuals stub_platform stub_map [3, 5] example_table
     (partition_of stub_platform example_half example_table) [] =
     Done ([- 6, - 7], [0, - 1])
       [Call_predictMeasurement 4 0 False gimNearest,
        Call_predictMeasurement 4 0 False gimBilinear,
        Call_predictMeasurement 0 0 False gimNearest,
        Call_predictMeasurement 0 0 False gimBilinear] \<and>
   1 < N_chk_pts (partition_of stub_platform example_half example_table) \<and>
   length [- 6, - 7 :: real] = N_chk_pts (partition_of stub_platform example_half example_table) \<and>
   residual_of stub_map [3, 5] example_table gimNearest
     (checkpoint_set (partition_of stub_platform example_half example_table) ! 1)
     ([- 6, - 7] ! 1) \<and>
   residual_of stub_map [3, 5] example_table gimBilinear
     (checkpoint_set (partition_of stub_platform example_half example_table) ! 1)
     ([0, - 1] ! 1) \<and>
   returned (dem_gmrf_main stub_platform stub_map example_half example_table) \<and>
   filter is_predict (trace (dem_gmrf_main stub_platform stub_map example_half example_table)) =
     concat (map (\<lambda>i. [predict_call example_table i gimNearest,
                         predict_call example_table i gimBilinear])
               (checkpoint_set (partition_of stub_platform example_half example_table)))"
proof -
  have run: "eval_residuals stub_platform stub_map [3, 5] example_table
     (partition_of stub_platform example_half example_table) [] =
     Done ([- 6, - 7], [0, - 1])
       [Call_predictMeasurement 4 0 False gimNearest,
        Call_predictMeasurement 4 0 False gimBilinear,
        Call_predictMeasurement 0 0 False gimNearest,
        Call_predictMeasurement 0 0 False gimBilinear]"
    unfolding example_partition_half
    by (simp add: eval_residuals_def eval_body_def at_index_def size_t_plus_def VectorXd_def
        predict_call_def coeff_def stub_map_def stub_platform_def example_table_def upt_rec)
  have n: "1 < N_chk_pts (partition_of stub_platform example_half example_table)"
    by (simp add: example_partition_half)
  have ret: "returned (dem_gmrf_main stub_platform stub_map example_half example_table)"
    by (simp add: example_run_half)
  from two_residuals_per_checkpoint [OF run, where cfg = example_half] run n ret
  show ?thesis by blast
qed

subsection \<open>The statistics of no residual\<close>

text \<open>
  C4 as stated does not hold: \<open>do_residuals_stats\<close> returns before it assigns any entry,
  so a vector that comes in with six coefficients goes out with the same six, zero or not.
\<close>

theorem empty_stats_not_zero:
  "fst (do_residuals_stats stub_platform [] [1, 2, 3, 4, 5, 6]) \<noteq> [0, 0, 0, 0, 0, 0]"
  by (simp add: do_residuals_stats_def resize_def)

text \<open>
  C4, amended: for an empty vector of residuals \<open>do_residuals_stats\<close> throws nothing and
  leaves in \<open>stats\<close> six coefficients, none of which it assigns: they are what
  \<open>stats.resize(6)\<close> leaves, the six coefficients that the vector had when it had six, and
  newly allocated, unassigned ones otherwise. The header is set as for any other vector.
\<close>

theorem empty_stats_unassigned:
  "do_residuals_stats pf [] stats =
     (if length stats = 6 then stats else map (storage pf) [0..<6], stats_file_hdr) \<and>
   length (fst (do_residuals_stats pf [] stats)) = 6"
  by (simp add: do_residuals_stats_def resize_def VectorXd_def)

text \<open>On the stand-in platform, whose new storage holds zeros, and on a vector of six.\<close>

theorem empty_stats_unassigned_witness:
  "do_residuals_stats stub_platform [] [] = ([0, 0, 0, 0, 0, 0], stats_file_hdr) \<and>
   do_residuals_stats stub_platform [] [1, 2, 3, 4, 5, 6] = ([1, 2, 3, 4, 5, 6], stats_file_hdr)"
  using empty_stats_unassigned [of stub_platform "[]"]
    empty_stats_unassigned [of stub_platform "[1, 2, 3, 4, 5, 6]"]
  by (simp add: stub_platform_def upt_rec)

end
